theory Spec2Isabelle
  imports Main "HOL-Library.Word"
begin

section \<open>Common types\<close>

text \<open>
  Errors of the port subsystem.  The C++ throws \<open>FbossError\<close> and \<open>BcmError\<close> with a
  message; the constructors below name the throw sites after the error taxonomy of the
  specification.  \<open>InvariantViolation\<close> stands for a failed \<open>CHECK\<close> or an
  \<open>XLOG(FATAL)\<close>, which terminate the process; \<open>I2cError\<close> is the exception of the
  transceiver bus.
\<close>

datatype error =
    DuplicateResource
  | MissingResource
  | UnsupportedConfiguration
  | BackendRejected
  | InvariantViolation
  | I2cError

text \<open>
  Code that mutates an object and may throw is a function from the object's state to an
  outcome and the state reached: \<open>Inl e\<close> is the exception \<open>e\<close> leaving the function
  with the state as it was when the exception was thrown.
\<close>

type_synonym ('s, 'a) prog = "'s \<Rightarrow> (error + 'a) \<times> 's"

definition ret :: "'a \<Rightarrow> ('s, 'a) prog" where
  "ret x = (\<lambda>s. (Inr x, s))"

definition throw :: "error \<Rightarrow> ('s, 'a) prog" where
  "throw e = (\<lambda>s. (Inl e, s))"

definition bind :: "('s, 'a) prog \<Rightarrow> ('a \<Rightarrow> ('s, 'b) prog) \<Rightarrow> ('s, 'b) prog" where
  "bind m f = (\<lambda>s. case m s of (Inl e, s') \<Rightarrow> (Inl e, s') | (Inr x, s') \<Rightarrow> f x s')"

definition next_do :: "('s, unit) prog \<Rightarrow> ('s, 'b) prog \<Rightarrow> ('s, 'b) prog" where
  "next_do m k = bind m (\<lambda>_. k)"

type_synonym PortID = nat
type_synonym VlanID = nat

text \<open>
  \<open>cfg::PortSpeed\<close>.  The code also makes a \<open>cfg::PortSpeed\<close> of the integer
  the SDK reports as a port's speed; \<open>OTHER_SPEED n\<close> is that value for an \<open>n\<close>
  that is not the value of an enumerator.
\<close>

datatype PortSpeed =
  DEFAULT | GIGE | XG | TWENTYG | TWENTYFIVEG | FORTYG | FIFTYG | HUNDREDG | OTHER_SPEED int

datatype TransmitterTechnology = UNKNOWN | COPPER | OPTICAL

datatype PortState = DISABLED | ENABLED

datatype PortFEC = FEC_OFF | FEC_ON

datatype PortLoopbackMode = LB_NONE | LB_PHY | LB_MAC

datatype MirrorDirection = INGRESS | EGRESS

datatype MirrorAction = START | STOP

text \<open>
  The software port (\<open>state/Port.h\<close>), as far as the port managers read it.  Each field
  is the value of the getter of the same name: \<open>getID\<close>, \<open>getName\<close>, \<open>getAdminState\<close>,
  \<open>getSpeed\<close>, \<open>getFEC\<close>, \<open>getPause\<close> (\<open>tx\<close>, \<open>rx\<close>), \<open>getLoopbackMode\<close>,
  \<open>getIngressVlan\<close>, \<open>getVlans\<close> (VLAN id and its \<open>tagged\<close> flag, in key order),
  \<open>getPortQueues\<close>, \<open>isPortUp\<close>, \<open>getIngressMirror\<close> and \<open>getEgressMirror\<close>.
\<close>

record Port =
  swID :: PortID
  swName :: string
  swAdminState :: PortState
  swSpeed :: PortSpeed
  swFEC :: PortFEC
  swPauseTx :: bool
  swPauseRx :: bool
  swLoopbackMode :: PortLoopbackMode
  swIngressVlan :: VlanID
  swVlans :: "(VlanID \<times> bool) list"
  swPortQueues :: "nat list"
  swIsPortUp :: bool
  swIngressMirror :: "string option"
  swEgressMirror :: "string option"

section \<open>Mirror tunnels (state/Mirror.h)\<close>

record TunnelUdpPorts =
  udpSrcPort :: "32 word"
  udpDstPort :: "32 word"

text \<open>
  \<open>folly::IPAddress\<close> and \<open>folly::MacAddress\<close> are library types with an equality
  and a strict order; the tunnel is polymorphic in them.
\<close>

record ('ip, 'mac) MirrorTunnel =
  srcIp :: 'ip
  dstIp :: 'ip
  srcMac :: 'mac
  dstMac :: 'mac
  udpPorts :: "TunnelUdpPorts option"
  ttl :: "8 word"
  greProtocol :: "16 word"

definition kTTL :: "8 word" where
  "kTTL = 255"

definition kProto :: "16 word" where
  "kProto = 0x88be"

text \<open>The seven-argument constructor, with its defaults written by the callers.\<close>

definition mkMirrorTunnel ::
  "'ip \<Rightarrow> 'ip \<Rightarrow> 'mac \<Rightarrow> 'mac \<Rightarrow> TunnelUdpPorts option \<Rightarrow> 8 word \<Rightarrow> 16 word
    \<Rightarrow> ('ip, 'mac) MirrorTunnel" where
  "mkMirrorTunnel sIp dIp sMac dMac ports t proto =
     \<lparr>srcIp = sIp, dstIp = dIp, srcMac = sMac, dstMac = dMac,
      udpPorts = ports, ttl = t, greProtocol = proto\<rparr>"

text \<open>\<open>MirrorTunnel::operator==\<close>.\<close>

definition tunnel_eq :: "('ip, 'mac) MirrorTunnel \<Rightarrow> ('ip, 'mac) MirrorTunnel \<Rightarrow> bool" where
  "tunnel_eq lhs rhs \<longleftrightarrow>
     srcIp lhs = srcIp rhs \<and> dstIp lhs = dstIp rhs \<and> srcMac lhs = srcMac rhs \<and>
     dstMac lhs = dstMac rhs \<and> ttl lhs = ttl rhs \<and> greProtocol lhs = greProtocol rhs"

text \<open>
  \<open>MirrorTunnel::operator<\<close> compares two \<open>std::tie\<close> tuples: the first component
  decides when it differs (\<open>a < b\<close>, and otherwise \<open>b < a\<close> refutes), else the rest.
\<close>

definition tie_step :: "'a::ord \<Rightarrow> 'a \<Rightarrow> bool \<Rightarrow> bool" where
  "tie_step a b rest \<longleftrightarrow> a < b \<or> (\<not> b < a \<and> rest)"

definition tunnel_less ::
  "('ip::ord, 'mac::ord) MirrorTunnel \<Rightarrow> ('ip, 'mac) MirrorTunnel \<Rightarrow> bool" where
  "tunnel_less lhs rhs \<longleftrightarrow>
     tie_step (srcIp lhs) (srcIp rhs)
       (tie_step (dstIp lhs) (dstIp rhs)
         (tie_step (srcMac lhs) (srcMac rhs)
           (tie_step (dstMac lhs) (dstMac rhs)
             (tie_step (ttl lhs) (ttl rhs)
               (greProtocol lhs < greProtocol rhs)))))"

section \<open>Interface modes of the Broadcom port (BcmPort)\<close>

text \<open>
  The SDK's \<open>opennsl_port_if_t\<close>: the modes the table names, and \<open>OPENNSL_PORT_IF_OTHER\<close>
  for any other mode the hardware may report.
\<close>

datatype opennsl_port_if_t =
    OPENNSL_PORT_IF_CR4
  | OPENNSL_PORT_IF_CAUI
  | OPENNSL_PORT_IF_CR2
  | OPENNSL_PORT_IF_XLAUI
  | OPENNSL_PORT_IF_CR
  | OPENNSL_PORT_IF_SFI
  | OPENNSL_PORT_IF_GMII
  | OPENNSL_PORT_IF_OTHER nat

definition kPortTypeMapping ::
  "(PortSpeed \<times> (TransmitterTechnology \<times> opennsl_port_if_t) list) list" where
  "kPortTypeMapping =
    [(HUNDREDG,
        [(COPPER, OPENNSL_PORT_IF_CR4), (OPTICAL, OPENNSL_PORT_IF_CAUI),
         (UNKNOWN, OPENNSL_PORT_IF_CAUI)]),
     (FIFTYG,
        [(COPPER, OPENNSL_PORT_IF_CR2), (OPTICAL, OPENNSL_PORT_IF_CAUI),
         (UNKNOWN, OPENNSL_PORT_IF_CR2)]),
     (FORTYG,
        [(COPPER, OPENNSL_PORT_IF_CR4), (OPTICAL, OPENNSL_PORT_IF_XLAUI),
         (UNKNOWN, OPENNSL_PORT_IF_XLAUI)]),
     (TWENTYFIVEG,
        [(COPPER, OPENNSL_PORT_IF_CR), (OPTICAL, OPENNSL_PORT_IF_CAUI),
         (UNKNOWN, OPENNSL_PORT_IF_CR)]),
     (TWENTYG,
        [(COPPER, OPENNSL_PORT_IF_CR), (UNKNOWN, OPENNSL_PORT_IF_CR)]),
     (XG,
        [(COPPER, OPENNSL_PORT_IF_CR), (OPTICAL, OPENNSL_PORT_IF_SFI),
         (UNKNOWN, OPENNSL_PORT_IF_CR)]),
     (GIGE,
        [(COPPER, OPENNSL_PORT_IF_GMII), (UNKNOWN, OPENNSL_PORT_IF_GMII)])]"

text \<open>
  \<open>kPortTypeMapping.at(speed).at(transmitterTech)\<close>: \<open>None\<close> is the
  \<open>std::out_of_range\<close> that either \<open>at\<close> throws.
\<close>

definition kPortTypeMapping_at ::
  "PortSpeed \<Rightarrow> TransmitterTechnology \<Rightarrow> opennsl_port_if_t option" where
  "kPortTypeMapping_at speed tech =
     (case map_of kPortTypeMapping speed of
        None \<Rightarrow> None
      | Some row \<Rightarrow> map_of row tech)"

section \<open>The SDK and the state of a Broadcom port\<close>

text \<open>
  The calls \<open>BcmPort\<close> makes on its collaborators.  The first group are the writes of
  the OpenNSL SDK (\<open>opennsl_port_enable_set\<close>, \<open>opennsl_vlan_port_add\<close> with the flag
  "the port is in the untagged bitmap", \<open>opennsl_vlan_port_remove\<close>,
  \<open>opennsl_port_vlan_member_set\<close>, \<open>opennsl_port_untagged_vlan_set\<close>,
  \<open>opennsl_port_interface_set\<close>, \<open>opennsl_port_speed_set\<close>,
  \<open>opennsl_port_stat_enable_set\<close>), the second its reads, the third the members of
  \<open>BcmPort\<close>, the platform port and \<open>BcmMirror\<close> whose bodies are in other files:
  each of those is one opaque call.
\<close>

datatype sdk_call =
    EnableSet bool
  | VlanPortAdd VlanID bool
  | VlanPortRemove VlanID
  | VlanMemberSet
  | UntaggedVlanSet VlanID
  | InterfaceSet opennsl_port_if_t
  | SpeedSet PortSpeed
  | StatEnableSet bool
  | EnableGet
  | UntaggedVlanGet
  | InterfaceGet
  | SpeedGet
  | SpeedMax
  | SetPortResource
  | SetFEC
  | SetPause
  | SetTxSetting
  | SetSflowRates
  | SetLoopbackMode
  | DisableSflow
  | LinkSpeedChanged PortSpeed
  | PortMirrorAction MirrorAction string MirrorDirection

text \<open>
  Return codes: success, \<open>OPENNSL_E_EXISTS\<close>, and any other failure code.
  \<open>OPENNSL_FAILURE\<close> holds of the last two.
\<close>

datatype opennsl_rv = OPENNSL_E_NONE | OPENNSL_E_EXISTS | OPENNSL_E_FAIL

datatype opennsl_stat_val_t =
    opennsl_spl_snmpIfHCInOctets
  | opennsl_spl_snmpIfHCInUcastPkts
  | opennsl_spl_snmpIfHCInMulticastPkts
  | opennsl_spl_snmpIfHCInBroadcastPkts
  | opennsl_spl_snmpIfInDiscards
  | opennsl_spl_snmpIfInErrors
  | opennsl_spl_snmpIpInHdrErrors
  | opennsl_spl_snmpIpv6IfStatsInHdrErrors
  | opennsl_spl_snmpDot3InPauseFrames
  | opennsl_spl_snmpIfHCOutOctets
  | opennsl_spl_snmpIfHCOutUcastPkts
  | opennsl_spl_snmpIfHCOutMulticastPkts
  | opennsl_spl_snmpIfHCOutBroadcastPckts
  | opennsl_spl_snmpIfOutDiscards
  | opennsl_spl_snmpIfOutErrors
  | opennsl_spl_snmpDot3OutPauseFrames

text \<open>The counters of \<open>HwPortStats\<close> that \<open>BcmPort::updateStats\<close> fills, as \<open>int64_t\<close>
  (the C++ names end in an underscore).\<close>

record HwPortStats =
  inBytes :: "64 word"
  inUnicastPkts :: "64 word"
  inMulticastPkts :: "64 word"
  inBroadcastPkts :: "64 word"
  inDiscards :: "64 word"
  inErrors :: "64 word"
  inPause :: "64 word"
  inIpv4HdrErrors :: "64 word"
  inIpv6HdrErrors :: "64 word"
  inNonPauseDiscards :: "64 word"
  outBytes :: "64 word"
  outUnicastPkts :: "64 word"
  outMulticastPkts :: "64 word"
  outBroadcastPkts :: "64 word"
  outDiscards :: "64 word"
  outErrors :: "64 word"
  outPause :: "64 word"

record BcmPortStats =
  portStats :: HwPortStats
  timeRetrieved :: int

text \<open>
  One port.  The \<open>hw\<close> fields are the SDK's state of the port: the admin state, the
  current and the maximal speed, the untagged VLAN, the interface mode, the counters
  accumulated in software (\<open>None\<close> where \<open>opennsl_stat_get\<close> fails) and the return
  code the SDK or a collaborator gives each call.  \<open>sdkLog\<close> lists the writes and opaque
  calls issued so far, oldest first.  \<open>mirrorTable\<close> and \<open>mmuLossy\<close> belong to the
  switch (\<open>getBcmMirrorTable()\<close>, \<open>getMmuState()\<close>),
  \<open>usePortResourceAPIs\<close>, \<open>platformTransmitterTech\<close> to the platform port,
  \<open>reportStats\<close> is \<open>shouldReportStats()\<close>, \<open>additionalStats\<close> is what
  \<open>updateBcmStats\<close> followed by \<open>setAdditionalStats\<close> do to the statistics being
  collected.  The last four fields are the members of
  the same name (the C++ names end in an underscore).
\<close>

record BcmPort =
  hwEnabled :: bool
  hwSpeed :: PortSpeed
  hwMaxSpeed :: PortSpeed
  hwUntaggedVlan :: VlanID
  hwInterface :: opennsl_port_if_t
  hwStats :: "opennsl_stat_val_t \<Rightarrow> 64 word option"
  sdkRv :: "sdk_call \<Rightarrow> opennsl_rv"
  sdkLog :: "sdk_call list"
  mirrorTable :: "string list"
  mmuLossy :: bool
  usePortResourceAPIs :: bool
  platformTransmitterTech :: TransmitterTechnology
  reportStats :: bool
  additionalStats :: "HwPortStats \<Rightarrow> HwPortStats"
  transmitterTechnology :: TransmitterTechnology
  ingressMirror :: "string option"
  egressMirror :: "string option"
  lastPortStats :: BcmPortStats

text \<open>
  A write reaches the SDK, is logged, and takes effect when the SDK accepts it; the
  return code goes back to the caller.
\<close>

definition sdk_effect :: "sdk_call \<Rightarrow> BcmPort \<Rightarrow> BcmPort" where
  "sdk_effect c p =
     (case c of
        EnableSet b \<Rightarrow> p\<lparr>hwEnabled := b\<rparr>
      | UntaggedVlanSet v \<Rightarrow> p\<lparr>hwUntaggedVlan := v\<rparr>
      | InterfaceSet m \<Rightarrow> p\<lparr>hwInterface := m\<rparr>
      | SpeedSet s \<Rightarrow> p\<lparr>hwSpeed := s\<rparr>
      | _ \<Rightarrow> p)"

definition sdk_write :: "sdk_call \<Rightarrow> (BcmPort, opennsl_rv) prog" where
  "sdk_write c = (\<lambda>p.
     let p' = p\<lparr>sdkLog := sdkLog p @ [c]\<rparr>
     in (Inr (sdkRv p c), if sdkRv p c = OPENNSL_E_NONE then sdk_effect c p' else p'))"

text \<open>\<open>bcmCheckError\<close> throws when \<open>OPENNSL_FAILURE(rv)\<close>.\<close>

definition bcmCheckError :: "opennsl_rv \<Rightarrow> ('s, unit) prog" where
  "bcmCheckError rv = (if rv = OPENNSL_E_NONE then ret () else throw BackendRejected)"

text \<open>A write followed by \<open>bcmCheckError\<close>; an opaque call that may throw.\<close>

definition sdk_set :: "sdk_call \<Rightarrow> (BcmPort, unit) prog" where
  "sdk_set c = bind (sdk_write c) bcmCheckError"

text \<open>A read followed by \<open>bcmCheckError\<close>: nothing is written.\<close>

definition sdk_get :: "sdk_call \<Rightarrow> (BcmPort \<Rightarrow> 'a) \<Rightarrow> (BcmPort, 'a) prog" where
  "sdk_get c field = (\<lambda>p.
     (if sdkRv p c = OPENNSL_E_NONE then Inr (field p) else Inl BackendRejected, p))"

section \<open>BcmPort: admin state, speed and interface mode\<close>

definition isEnabled :: "(BcmPort, bool) prog" where
  "isEnabled = sdk_get EnableGet hwEnabled"

definition setIngressVlan :: "Port \<Rightarrow> (BcmPort, unit) prog" where
  "setIngressVlan swPort =
     bind (sdk_get UntaggedVlanGet hwUntaggedVlan) (\<lambda>currVlan.
       if swIngressVlan swPort \<noteq> currVlan
       then sdk_set (UntaggedVlanSet (swIngressVlan swPort))
       else ret ())"

text \<open>\<open>name.find("fab") == 0\<close>: the name starts with \<open>fab\<close>.\<close>

definition getTransmitterTechnology :: "string \<Rightarrow> (BcmPort, TransmitterTechnology) prog" where
  "getTransmitterTechnology name = (\<lambda>p.
     if transmitterTechnology p \<noteq> UNKNOWN then (Inr (transmitterTechnology p), p)
     else
       let tech = (if take 3 name = ''fab'' then COPPER else platformTransmitterTech p)
       in (Inr tech, p\<lparr>transmitterTechnology := tech\<rparr>))"

definition getDesiredInterfaceMode ::
  "PortSpeed \<Rightarrow> PortID \<Rightarrow> string \<Rightarrow> (BcmPort, opennsl_port_if_t) prog" where
  "getDesiredInterfaceMode speed ident name =
     bind (getTransmitterTechnology name) (\<lambda>transmitterTech.
       case kPortTypeMapping_at speed transmitterTech of
         Some result \<Rightarrow> ret result
       | None \<Rightarrow> throw UnsupportedConfiguration)"

definition getSpeed :: "(BcmPort, PortSpeed) prog" where
  "getSpeed = sdk_get SpeedGet hwSpeed"

definition getDesiredPortSpeed :: "Port \<Rightarrow> (BcmPort, PortSpeed) prog" where
  "getDesiredPortSpeed swPort =
     (if swSpeed swPort = DEFAULT then sdk_get SpeedMax hwMaxSpeed
      else ret (swSpeed swPort))"

definition setInterfaceMode :: "Port \<Rightarrow> (BcmPort, unit) prog" where
  "setInterfaceMode swPort =
     bind (getDesiredPortSpeed swPort) (\<lambda>desiredPortSpeed.
     bind (getDesiredInterfaceMode desiredPortSpeed (swID swPort) (swName swPort))
       (\<lambda>desiredMode.
     bind (sdk_get InterfaceGet hwInterface) (\<lambda>curMode.
       if curMode \<noteq> desiredMode \<or> \<not> swIsPortUp swPort
       then sdk_set (InterfaceSet desiredMode)
       else ret ())))"

definition setSpeed :: "Port \<Rightarrow> (BcmPort, unit) prog" where
  "setSpeed swPort =
     bind (getDesiredPortSpeed swPort) (\<lambda>desiredPortSpeed.
     bind getSpeed (\<lambda>curSpeed.
       if \<not> swIsPortUp swPort \<or> curSpeed \<noteq> desiredPortSpeed
       then next_do (setInterfaceMode swPort)
             (next_do (sdk_set (SpeedSet desiredPortSpeed))
               (sdk_set (LinkSpeedChanged desiredPortSpeed)))
       else ret ()))"

section \<open>BcmPort: mirror bindings\<close>

text \<open>
  \<open>getMirrorIf\<close> finds the session in the switch's mirror table; the \<open>CHECK\<close> ends
  the process when it is not there.
\<close>

definition applyMirrorAction ::
  "string option \<Rightarrow> MirrorAction \<Rightarrow> MirrorDirection \<Rightarrow> (BcmPort, unit) prog" where
  "applyMirrorAction mirrorName action direction =
     (case mirrorName of
        None \<Rightarrow> ret ()
      | Some n \<Rightarrow> (\<lambda>p.
          if n \<in> set (mirrorTable p)
          then sdk_set (PortMirrorAction action n direction) p
          else throw InvariantViolation p))"

definition boundMirror :: "MirrorDirection \<Rightarrow> BcmPort \<Rightarrow> string option" where
  "boundMirror direction p =
     (if direction = INGRESS then ingressMirror p else egressMirror p)"

definition bindMirror :: "MirrorDirection \<Rightarrow> string option \<Rightarrow> BcmPort \<Rightarrow> BcmPort" where
  "bindMirror direction swMirrorName p =
     (if direction = INGRESS then p\<lparr>ingressMirror := swMirrorName\<rparr>
      else p\<lparr>egressMirror := swMirrorName\<rparr>)"

definition updateMirror :: "string option \<Rightarrow> MirrorDirection \<Rightarrow> (BcmPort, unit) prog" where
  "updateMirror swMirrorName direction =
     next_do (\<lambda>p. applyMirrorAction (boundMirror direction p) STOP direction p)
       (next_do (\<lambda>p. (Inr (), bindMirror direction swMirrorName p))
         (\<lambda>p. applyMirrorAction (boundMirror direction p) START direction p))"

text \<open>The destructor stops both directions.\<close>

definition destroy :: "(BcmPort, unit) prog" where
  "destroy =
     next_do (\<lambda>p. applyMirrorAction (ingressMirror p) STOP INGRESS p)
       (\<lambda>p. applyMirrorAction (egressMirror p) STOP EGRESS p)"

section \<open>BcmPort: program, enable, disable\<close>

definition program :: "Port \<Rightarrow> (BcmPort, unit) prog" where
  "program port =
     next_do (setIngressVlan port)
    (next_do (\<lambda>p. if usePortResourceAPIs p then sdk_set SetPortResource p
                  else next_do (setSpeed port) (sdk_set SetFEC) p)
    (next_do (updateMirror (swIngressMirror port) INGRESS)
    (next_do (updateMirror (swEgressMirror port) EGRESS)
    (next_do (sdk_set SetPause)
    (next_do (sdk_set SetTxSetting)
    (next_do (sdk_set SetSflowRates)
             (sdk_set SetLoopbackMode)))))))"

fun addVlans :: "(VlanID \<times> bool) list \<Rightarrow> (BcmPort, unit) prog" where
  "addVlans [] = ret ()"
| "addVlans ((vlan, tagged) # entries) =
     next_do (sdk_set (VlanPortAdd vlan (\<not> tagged))) (addVlans entries)"

fun removeVlans :: "(VlanID \<times> bool) list \<Rightarrow> (BcmPort, unit) prog" where
  "removeVlans [] = ret ()"
| "removeVlans ((vlan, tagged) # entries) =
     next_do (sdk_set (VlanPortRemove vlan)) (removeVlans entries)"

text \<open>
  Enabling counter collection tolerates \<open>OPENNSL_E_EXISTS\<close>: only another code goes
  to \<open>bcmCheckError\<close>.
\<close>

definition enable :: "Port \<Rightarrow> (BcmPort, unit) prog" where
  "enable swPort =
     bind isEnabled (\<lambda>enabled.
       if enabled then ret ()
       else
         next_do (addVlans (swVlans swPort))
        (next_do (sdk_set VlanMemberSet)
        (next_do (program swPort)
        (next_do (bind (sdk_write (StatEnableSet True)) (\<lambda>rv.
                    if rv \<noteq> OPENNSL_E_EXISTS then bcmCheckError rv else ret ()))
                 (sdk_set (EnableSet True))))))"

definition disable :: "Port \<Rightarrow> (BcmPort, unit) prog" where
  "disable swPort =
     bind isEnabled (\<lambda>enabled.
       if \<not> enabled then ret ()
       else
         next_do (removeVlans (swVlans swPort))
        (next_do (sdk_set (StatEnableSet False))
        (next_do (sdk_set DisableSflow)
                 (sdk_set (EnableSet False)))))"

section \<open>BcmPort: statistics\<close>

text \<open>
  Modelled from the spec: the declaration of \<open>HwPortStats\<close> (generated from the
  hardware statistics interface file) and the constant \<open>STAT_UNINITIALIZED\<close> are not
  among the sources.  The specification tells initialized counters from uninitialized
  ones, seeds the running total with 0 when the previous value is uninitialized, and
  has the first poll skip the derivation because there is no previous snapshot; the
  code tests each of these counters against \<open>STAT_UNINITIALIZED\<close>.  So a
  default-constructed value is one in which no counter is initialized: every field is
  the marker.  The marker's value is a parameter, \<open>kUninit\<close>.
\<close>

definition HwPortStats_default :: "64 word \<Rightarrow> HwPortStats" where
  "HwPortStats_default kUninit =
     \<lparr>inBytes = kUninit, inUnicastPkts = kUninit, inMulticastPkts = kUninit,
      inBroadcastPkts = kUninit, inDiscards = kUninit, inErrors = kUninit,
      inPause = kUninit, inIpv4HdrErrors = kUninit, inIpv6HdrErrors = kUninit,
      inNonPauseDiscards = kUninit, outBytes = kUninit, outUnicastPkts = kUninit,
      outMulticastPkts = kUninit, outBroadcastPkts = kUninit, outDiscards = kUninit,
      outErrors = kUninit, outPause = kUninit\<rparr>"

text \<open>
  \<open>updateStat\<close> reads the value accumulated in software and stores it through
  \<open>statVal\<close>; on a failed read it returns and \<open>*statVal\<close> keeps its content.  The
  result is the content of \<open>*statVal\<close> afterwards.  (The exported fb303 counters are
  not modelled.)
\<close>

definition updateStat :: "BcmPort \<Rightarrow> opennsl_stat_val_t \<Rightarrow> 64 word \<Rightarrow> 64 word" where
  "updateStat p type statVal = (case hwStats p type of None \<Rightarrow> statVal | Some v \<Rightarrow> v)"

text \<open>The sixteen \<open>updateStat\<close> calls of \<open>updateStats\<close>.\<close>

definition collectStats :: "BcmPort \<Rightarrow> HwPortStats \<Rightarrow> HwPortStats" where
  "collectStats p cur =
     cur\<lparr>inBytes := updateStat p opennsl_spl_snmpIfHCInOctets (inBytes cur),
         inUnicastPkts := updateStat p opennsl_spl_snmpIfHCInUcastPkts (inUnicastPkts cur),
         inMulticastPkts :=
           updateStat p opennsl_spl_snmpIfHCInMulticastPkts (inMulticastPkts cur),
         inBroadcastPkts :=
           updateStat p opennsl_spl_snmpIfHCInBroadcastPkts (inBroadcastPkts cur),
         inDiscards := updateStat p opennsl_spl_snmpIfInDiscards (inDiscards cur),
         inErrors := updateStat p opennsl_spl_snmpIfInErrors (inErrors cur),
         inIpv4HdrErrors := updateStat p opennsl_spl_snmpIpInHdrErrors (inIpv4HdrErrors cur),
         inIpv6HdrErrors :=
           updateStat p opennsl_spl_snmpIpv6IfStatsInHdrErrors (inIpv6HdrErrors cur),
         inPause := updateStat p opennsl_spl_snmpDot3InPauseFrames (inPause cur),
         outBytes := updateStat p opennsl_spl_snmpIfHCOutOctets (outBytes cur),
         outUnicastPkts := updateStat p opennsl_spl_snmpIfHCOutUcastPkts (outUnicastPkts cur),
         outMulticastPkts :=
           updateStat p opennsl_spl_snmpIfHCOutMulticastPkts (outMulticastPkts cur),
         outBroadcastPkts :=
           updateStat p opennsl_spl_snmpIfHCOutBroadcastPckts (outBroadcastPkts cur),
         outDiscards := updateStat p opennsl_spl_snmpIfOutDiscards (outDiscards cur),
         outErrors := updateStat p opennsl_spl_snmpIfOutErrors (outErrors cur),
         outPause := updateStat p opennsl_spl_snmpDot3OutPauseFrames (outPause cur)\<rparr>"

text \<open>\<open>std::max(0L, x)\<close> on \<open>int64_t\<close>.\<close>

definition max0L :: "64 word \<Rightarrow> 64 word" where
  "max0L x = (if 0 <s x then x else 0)"

text \<open>
  The block "Compute non pause discards" of \<open>updateStats\<close>: the statistics being
  collected, after it.  The subtractions and the addition are those of \<open>int64_t\<close>,
  here with two's-complement wrap-around.
\<close>

definition computeNonPauseDiscards ::
  "64 word \<Rightarrow> bool \<Rightarrow> HwPortStats \<Rightarrow> HwPortStats \<Rightarrow> HwPortStats" where
  "computeNonPauseDiscards kUninit isMmuLossy lastStats curPortStats =
     (if isMmuLossy \<and> inDiscards lastStats \<noteq> kUninit \<and> inPause lastStats \<noteq> kUninit
      then
        let inPauseSincePrev = inPause curPortStats - inPause lastStats;
            inDiscardsSincePrev = inDiscards curPortStats - inDiscards lastStats
        in
          if 0 \<le>s inPauseSincePrev \<and> 0 \<le>s inDiscardsSincePrev
          then
            let inNonPauseDiscardsSincePrev = max0L (inDiscardsSincePrev - inPauseSincePrev)
            in curPortStats\<lparr>inNonPauseDiscards :=
                 (if inNonPauseDiscards lastStats = kUninit then 0
                  else inNonPauseDiscards lastStats) + inNonPauseDiscardsSincePrev\<rparr>
          else curPortStats
      else curPortStats)"




section \<open>SaiPortManager: the handle registry\<close>

type_synonym PortSaiId = nat

record SaiPortHandle =
  adapterKey :: PortSaiId
  bridgePort :: nat
  queues :: "nat list"

datatype sai_port_fec_mode_t = SAI_PORT_FEC_MODE_NONE | SAI_PORT_FEC_MODE_RS

datatype sai_port_flow_control_mode_t =
    SAI_PORT_FLOW_CONTROL_MODE_DISABLE
  | SAI_PORT_FLOW_CONTROL_MODE_TX_ONLY
  | SAI_PORT_FLOW_CONTROL_MODE_RX_ONLY
  | SAI_PORT_FLOW_CONTROL_MODE_BOTH_ENABLE

datatype sai_port_internal_loopback_mode_t =
    SAI_PORT_INTERNAL_LOOPBACK_MODE_NONE
  | SAI_PORT_INTERNAL_LOOPBACK_MODE_PHY
  | SAI_PORT_INTERNAL_LOOPBACK_MODE_MAC

datatype sai_port_media_type_t =
    SAI_PORT_MEDIA_TYPE_UNKNOWN
  | SAI_PORT_MEDIA_TYPE_FIBER
  | SAI_PORT_MEDIA_TYPE_COPPER

record CreateAttributes =
  attrHwLaneList :: "nat list"
  attrSpeed :: "32 word"
  attrAdminState :: bool
  attrFecMode :: sai_port_fec_mode_t
  attrInternalLoopbackMode :: sai_port_internal_loopback_mode_t
  attrMediaType :: sai_port_media_type_t
  attrGlobalFlowControlMode :: sai_port_flow_control_mode_t
  attrVlanId :: "16 word"

text \<open>
  The manager.  \<open>handles\<close> maps a port id to its \<open>unique_ptr<SaiPortHandle>\<close>
  (\<open>Some None\<close> is an entry holding a null pointer); \<open>portIds\<close> is the reverse index
  \<open>concurrentIndices_->portIds\<close>, from the SAI id to the port id.  The other fields
  are the collaborators: the platform port's lanes and transmitter technology, the
  numeric value of a speed, and the store, the bridge manager and the queue manager,
  each giving \<open>None\<close> when it throws.  \<open>saiLog\<close> lists the calls made on those
  three, oldest first.
\<close>

datatype sai_call = SetObject "nat list" | AddBridgePort PortSaiId | CreateQueues PortSaiId

record SaiPortManager =
  handles :: "PortID \<rightharpoonup> SaiPortHandle option"
  portIds :: "PortSaiId \<rightharpoonup> PortID"
  saiLog :: "sai_call list"
  getHwPortLanes :: "PortID \<Rightarrow> PortSpeed \<Rightarrow> nat list"
  getTransmitterTech :: "PortID \<Rightarrow> TransmitterTechnology"
  speedValue :: "PortSpeed \<Rightarrow> 32 word"
  setObject :: "nat list \<Rightarrow> CreateAttributes \<Rightarrow> PortSaiId option"
  addBridgePort :: "PortSaiId \<Rightarrow> nat option"
  createQueues :: "PortSaiId \<Rightarrow> nat list \<Rightarrow> nat list option"

definition attributesFromSwPort :: "SaiPortManager \<Rightarrow> Port \<Rightarrow> CreateAttributes" where
  "attributesFromSwPort m swPort =
     \<lparr>attrHwLaneList = getHwPortLanes m (swID swPort) (swSpeed swPort),
      attrSpeed =
        (if swSpeed swPort = TWENTYFIVEG \<or> swSpeed swPort = HUNDREDG
         then speedValue m (swSpeed swPort) else 0),
      attrAdminState = (swAdminState swPort = ENABLED),
      attrFecMode =
        (if swFEC swPort = FEC_ON then SAI_PORT_FEC_MODE_RS else SAI_PORT_FEC_MODE_NONE),
      attrInternalLoopbackMode =
        (case swLoopbackMode swPort of
           LB_NONE \<Rightarrow> SAI_PORT_INTERNAL_LOOPBACK_MODE_NONE
         | LB_PHY \<Rightarrow> SAI_PORT_INTERNAL_LOOPBACK_MODE_PHY
         | LB_MAC \<Rightarrow> SAI_PORT_INTERNAL_LOOPBACK_MODE_MAC),
      attrMediaType =
        (case getTransmitterTech m (swID swPort) of
           COPPER \<Rightarrow> SAI_PORT_MEDIA_TYPE_COPPER
         | OPTICAL \<Rightarrow> SAI_PORT_MEDIA_TYPE_FIBER
         | UNKNOWN \<Rightarrow> SAI_PORT_MEDIA_TYPE_UNKNOWN),
      attrGlobalFlowControlMode =
        (if swPauseTx swPort \<and> swPauseRx swPort then SAI_PORT_FLOW_CONTROL_MODE_BOTH_ENABLE
         else if swPauseTx swPort then SAI_PORT_FLOW_CONTROL_MODE_TX_ONLY
         else if swPauseRx swPort then SAI_PORT_FLOW_CONTROL_MODE_RX_ONLY
         else SAI_PORT_FLOW_CONTROL_MODE_DISABLE),
      attrVlanId = of_nat (swIngressVlan swPort)\<rparr>"

text \<open>\<open>getPortHandleImpl\<close>: a null handle in the map is fatal.\<close>

definition getPortHandle :: "PortID \<Rightarrow> (SaiPortManager, SaiPortHandle option) prog" where
  "getPortHandle swId = (\<lambda>m.
     case handles m swId of
       None \<Rightarrow> (Inr None, m)
     | Some None \<Rightarrow> (Inl InvariantViolation, m)
     | Some (Some h) \<Rightarrow> (Inr (Some h), m))"

text \<open>\<open>emplace\<close> inserts only when the key is not there yet.\<close>

definition emplace :: "('k \<rightharpoonup> 'v) \<Rightarrow> 'k \<Rightarrow> 'v \<Rightarrow> ('k \<rightharpoonup> 'v)" where
  "emplace m k v = (case m k of None \<Rightarrow> m(k \<mapsto> v) | Some _ \<Rightarrow> m)"

definition backend_call :: "sai_call \<Rightarrow> 'a option \<Rightarrow> (SaiPortManager, 'a) prog" where
  "backend_call c r = (\<lambda>m.
     (case r of None \<Rightarrow> Inl BackendRejected | Some x \<Rightarrow> Inr x,
      m\<lparr>saiLog := saiLog m @ [c]\<rparr>))"

definition addPort :: "Port \<Rightarrow> (SaiPortManager, PortSaiId) prog" where
  "addPort swPort =
     bind (getPortHandle (swID swPort)) (\<lambda>portHandle.
       case portHandle of
         Some h \<Rightarrow> throw DuplicateResource
       | None \<Rightarrow> (\<lambda>m.
           (let attributes = attributesFromSwPort m swPort;
                portKey = attrHwLaneList attributes
            in bind (backend_call (SetObject portKey) (setObject m portKey attributes))
                 (\<lambda>saiPort.
               bind (backend_call (AddBridgePort saiPort) (addBridgePort m saiPort))
                 (\<lambda>bridge.
               bind (backend_call (CreateQueues saiPort)
                      (createQueues m saiPort (swPortQueues swPort))) (\<lambda>qs.
               (\<lambda>m'. (Inr saiPort,
                  m'\<lparr>handles := emplace (handles m') (swID swPort)
                         (Some \<lparr>adapterKey = saiPort, bridgePort = bridge, queues = qs\<rparr>),
                     portIds := emplace (portIds m') saiPort (swID swPort)\<rparr>)))))) m))"

text \<open>
  \<open>removePort\<close>, statement by statement: the states reached after
  \<open>portIds.erase(...)\<close> and after \<open>handles_.erase(itr)\<close>.  Dereferencing a null
  handle ends the process.
\<close>

definition eraseReverseIndex :: "PortSaiId \<Rightarrow> SaiPortManager \<Rightarrow> SaiPortManager" where
  "eraseReverseIndex key m = m\<lparr>portIds := (portIds m)(key := None)\<rparr>"

definition eraseHandle :: "PortID \<Rightarrow> SaiPortManager \<Rightarrow> SaiPortManager" where
  "eraseHandle swId m = m\<lparr>handles := (handles m)(swId := None)\<rparr>"

definition removePort_states :: "PortID \<Rightarrow> SaiPortManager \<Rightarrow> error + SaiPortManager list" where
  "removePort_states swId m =
     (case handles m swId of
        None \<Rightarrow> Inl MissingResource
      | Some None \<Rightarrow> Inl InvariantViolation
      | Some (Some h) \<Rightarrow>
          (let m1 = eraseReverseIndex (adapterKey h) m;
               m2 = eraseHandle swId m1
           in Inr [m1, m2]))"

definition removePort :: "PortID \<Rightarrow> (SaiPortManager, unit) prog" where
  "removePort swId = (\<lambda>m.
     case removePort_states swId m of
       Inl e \<Rightarrow> (Inl e, m)
     | Inr states \<Rightarrow> (Inr (), last states))"

definition changePort :: "Port \<Rightarrow> (SaiPortManager, unit) prog" where
  "changePort swPort =
     bind (getPortHandle (swID swPort)) (\<lambda>existingPort.
       case existingPort of
         None \<Rightarrow> throw MissingResource
       | Some h \<Rightarrow> (\<lambda>m.
           (let attributes = attributesFromSwPort m swPort;
                portKey = attrHwLaneList attributes
            in bind (backend_call (SetObject portKey) (setObject m portKey attributes))
                 (\<lambda>saiPort.
               bind (backend_call (CreateQueues (adapterKey h))
                      (createQueues m (adapterKey h) (swPortQueues swPort))) (\<lambda>qs.
               (\<lambda>m'. (Inr (),
                  m'\<lparr>handles := (handles m')(swID swPort \<mapsto> Some (h\<lparr>queues := qs\<rparr>))\<rparr>))))) m))"

text \<open>
  The reverse index is sound when each of its entries names a port that has a handle
  with that SAI id.
\<close>

definition index_sound :: "SaiPortManager \<Rightarrow> bool" where
  "index_sound m \<longleftrightarrow>
     (\<forall>key swId. portIds m key = Some swId \<longrightarrow>
        (\<exists>h. handles m swId = Some (Some h) \<and> adapterKey h = key))"

section \<open>The transceiver I2C bus (BaseWedgeI2CBus)\<close>

datatype ModulePresence = PRESENT | ABSENT

text \<open>
  The bus object: the selected port and the state of the CP2112 device behind it.
\<close>

record 'd BaseWedgeI2CBus =
  selectedPort :: "32 word"
  dev :: 'd

text \<open>
  What the bus is built on, none of it among the sources: the constants \<open>NO_PORT\<close>
  and \<open>TransceiverI2CApi::ADDR_QSFP\<close>, the device's \<open>writeByte\<close> and \<open>read\<close>, and the
  pure virtual \<open>selectQsfpImpl\<close> of the subclasses.  A device operation gives
  \<open>None\<close> when the communication fails, which the C++ reports by throwing
  \<open>I2cError\<close>.
\<close>

record 'd I2CBackend =
  NO_PORT :: "32 word"
  ADDR_QSFP :: "8 word"
  devWriteByte :: "8 word \<Rightarrow> 8 word \<Rightarrow> 'd \<Rightarrow> unit option \<times> 'd"
  devRead :: "8 word \<Rightarrow> nat \<Rightarrow> 'd \<Rightarrow> 8 word list option \<times> 'd"
  selectQsfpImpl :: "32 word \<Rightarrow> 'd BaseWedgeI2CBus \<Rightarrow> unit option \<times> 'd BaseWedgeI2CBus"

definition i2c :: "('s \<Rightarrow> 'a option \<times> 's) \<Rightarrow> ('s, 'a) prog" where
  "i2c f = (\<lambda>s. case f s of (None, s') \<Rightarrow> (Inl I2cError, s') | (Some x, s') \<Rightarrow> (Inr x, s'))"

definition on_dev ::
  "('d \<Rightarrow> 'a option \<times> 'd) \<Rightarrow> ('d BaseWedgeI2CBus, 'a) prog" where
  "on_dev f = i2c (\<lambda>b. case f (dev b) of (r, d') \<Rightarrow> (r, b\<lparr>dev := d'\<rparr>))"

definition CHECK :: "bool \<Rightarrow> ('s, unit) prog" where
  "CHECK c = (if c then ret () else throw InvariantViolation)"

text \<open>
  \<open>read\<close>: the address goes on the wire shifted left by one; at most 128 bytes are
  read at a time.  The result is the content of \<open>buf\<close>.
\<close>

definition read_bus ::
  "'d I2CBackend \<Rightarrow> 8 word \<Rightarrow> int \<Rightarrow> int \<Rightarrow> ('d BaseWedgeI2CBus, 8 word list) prog" where
  "read_bus be address offset len =
     next_do (CHECK (offset \<le> 255))
       (let address' = push_bit 1 address in
        next_do (on_dev (devWriteByte be address' (of_int offset)))
          (if len > 128
           then
             bind (on_dev (devRead be address' 128)) (\<lambda>lo.
             next_do (on_dev (devWriteByte be address' (of_int (offset + 128))))
               (bind (on_dev (devRead be address' (nat (len - 128)))) (\<lambda>hi.
                ret (lo @ hi))))
           else on_dev (devRead be address' (nat len))))"

definition selectQsfp :: "'d I2CBackend \<Rightarrow> 32 word \<Rightarrow> ('d BaseWedgeI2CBus, unit) prog" where
  "selectQsfp be port =
     next_do (CHECK (port > 0))
       (\<lambda>b. if port \<noteq> selectedPort b then i2c (selectQsfpImpl be port) b else ret () b)"

definition unselectQsfp :: "'d I2CBackend \<Rightarrow> ('d BaseWedgeI2CBus, unit) prog" where
  "unselectQsfp be =
     (\<lambda>b. if selectedPort b \<noteq> NO_PORT be then i2c (selectQsfpImpl be (NO_PORT be)) b
          else ret () b)"

definition moduleRead ::
  "'d I2CBackend \<Rightarrow> 32 word \<Rightarrow> 8 word \<Rightarrow> int \<Rightarrow> int \<Rightarrow> ('d BaseWedgeI2CBus, 8 word list) prog"
  where
  "moduleRead be module address offset len =
     next_do (selectQsfp be module)
    (next_do (\<lambda>b. CHECK (selectedPort b \<noteq> NO_PORT be) b)
    (bind (read_bus be address offset len) (\<lambda>buf.
     next_do (unselectQsfp be) (ret buf))))"

text \<open>\<open>isPresent\<close>: the \<open>catch\<close> takes \<open>I2cError\<close> and nothing else.\<close>

definition isPresent :: "'d I2CBackend \<Rightarrow> 32 word \<Rightarrow> ('d BaseWedgeI2CBus, bool) prog" where
  "isPresent be module = (\<lambda>b.
     case moduleRead be module (ADDR_QSFP be) 0 1 b of
       (Inl I2cError, b') \<Rightarrow> (Inr False, b')
     | (Inl e, b') \<Rightarrow> (Inl e, b')
     | (Inr buf, b') \<Rightarrow> (Inr True, b'))"

text \<open>
  \<open>scanPresence\<close> walks the map in key order and probes module \<open>key + 1\<close>; the
  result is the map afterwards.
\<close>

fun scanPresence ::
  "'d I2CBackend \<Rightarrow> (32 word \<times> ModulePresence) list
    \<Rightarrow> ('d BaseWedgeI2CBus, (32 word \<times> ModulePresence) list) prog" where
  "scanPresence be [] = ret []"
| "scanPresence be ((key, presence) # presences) = (\<lambda>b.
     case moduleRead be (key + 1) (ADDR_QSFP be) 0 1 b of
       (Inl I2cError, b') \<Rightarrow>
         bind (scanPresence be presences) (\<lambda>rest. ret ((key, ABSENT) # rest)) b'
     | (Inl e, b') \<Rightarrow> (Inl e, b')
     | (Inr buf, b') \<Rightarrow>
         bind (scanPresence be presences) (\<lambda>rest. ret ((key, PRESENT) # rest)) b')"

section \<open>Reading the log of SDK calls\<close>

text \<open>
  \<open>emits_le P n m\<close>: whatever the outcome, \<open>m\<close> only appends to the log, and at
  most \<open>n\<close> of the calls it appends satisfy \<open>P\<close>.
\<close>

definition emits_le :: "(sdk_call \<Rightarrow> bool) \<Rightarrow> nat \<Rightarrow> (BcmPort, 'a) prog \<Rightarrow> bool" where
  "emits_le P n m \<longleftrightarrow>
     (\<forall>s. \<exists>calls. sdkLog (snd (m s)) = sdkLog s @ calls \<and> length (filter P calls) \<le> n)"

definition isSpeedSet :: "sdk_call \<Rightarrow> bool" where
  "isSpeedSet c = (case c of SpeedSet s \<Rightarrow> True | _ \<Rightarrow> False)"

definition isInterfaceSet :: "sdk_call \<Rightarrow> bool" where
  "isInterfaceSet c = (case c of InterfaceSet m \<Rightarrow> True | _ \<Rightarrow> False)"


text \<open>
  The calls \<open>program\<close> may issue: the port's attributes, among them the sampling
  rate (\<open>SetSflowRates\<close>) and the mirror bindings.
\<close>

definition isAttributeCall :: "sdk_call \<Rightarrow> bool" where
  "isAttributeCall c =
     (case c of
        UntaggedVlanSet v \<Rightarrow> True
      | InterfaceSet m \<Rightarrow> True
      | SpeedSet s \<Rightarrow> True
      | LinkSpeedChanged s \<Rightarrow> True
      | SetPortResource \<Rightarrow> True
      | SetFEC \<Rightarrow> True
      | PortMirrorAction a n d \<Rightarrow> True
      | SetPause \<Rightarrow> True
      | SetTxSetting \<Rightarrow> True
      | SetSflowRates \<Rightarrow> True
      | SetLoopbackMode \<Rightarrow> True
      | _ \<Rightarrow> False)"

text \<open>The mirror call for an optional session name: none when there is no name.\<close>

definition mirrorCalls :: "MirrorAction \<Rightarrow> string option \<Rightarrow> MirrorDirection \<Rightarrow> sdk_call list" where
  "mirrorCalls action mirrorName direction =
     (case mirrorName of None \<Rightarrow> [] | Some n \<Rightarrow> [PortMirrorAction action n direction])"

text \<open>
  The sessions a port is attached to in one direction, after a list of calls: an
  accepted \<open>START\<close> attaches, an accepted \<open>STOP\<close> detaches, a rejected call changes
  nothing.
\<close>

definition mirror_step ::
  "(sdk_call \<Rightarrow> opennsl_rv) \<Rightarrow> MirrorDirection \<Rightarrow> string set \<Rightarrow> sdk_call \<Rightarrow> string set" where
  "mirror_step rv direction attached c =
     (case c of
        PortMirrorAction action n d \<Rightarrow>
          (if d = direction \<and> rv c = OPENNSL_E_NONE
           then (if action = START then insert n attached else attached - {n})
           else attached)
      | _ \<Rightarrow> attached)"

text \<open>The sets of attached sessions before the first call and after each call.\<close>

fun attachedHistory ::
  "(sdk_call \<Rightarrow> opennsl_rv) \<Rightarrow> MirrorDirection \<Rightarrow> string set \<Rightarrow> sdk_call list
    \<Rightarrow> string set list" where
  "attachedHistory rv direction attached [] = [attached]"
| "attachedHistory rv direction attached (c # calls) =
     attached # attachedHistory rv direction (mirror_step rv direction attached c) calls"

text \<open>The calls logged between an earlier state and a later one.\<close>

definition newCalls :: "BcmPort \<Rightarrow> BcmPort \<Rightarrow> sdk_call list" where
  "newCalls p p' = drop (length (sdkLog p)) (sdkLog p')"


text \<open>
  \<open>emits_ok c m\<close>: when \<open>m\<close> returns normally, \<open>c\<close> is among the calls it
  appended to the log.
\<close>

definition emits_ok :: "sdk_call \<Rightarrow> (BcmPort, 'a) prog \<Rightarrow> bool" where
  "emits_ok c m \<longleftrightarrow>
     (\<forall>s. (\<exists>y. fst (m s) = Inr y) \<longrightarrow>
        (\<exists>calls. sdkLog (snd (m s)) = sdkLog s @ calls \<and> c \<in> set calls))"

section \<open>Example ports\<close>

definition exampleCounters :: "64 word \<Rightarrow> 64 word \<Rightarrow> opennsl_stat_val_t \<Rightarrow> 64 word option" where
  "exampleCounters discards pause type =
     (if type = opennsl_spl_snmpIfInDiscards then Some discards
      else if type = opennsl_spl_snmpDot3InPauseFrames then Some pause
      else Some 0)"

text \<open>
  A port that is down and disabled in hardware at 40G, on a switch with a lossy MMU
  and two mirror sessions, with every call accepted.
\<close>

definition examplePort :: BcmPort where
  "examplePort =
     \<lparr>hwEnabled = False, hwSpeed = FORTYG, hwMaxSpeed = HUNDREDG, hwUntaggedVlan = 1,
      hwInterface = OPENNSL_PORT_IF_XLAUI, hwStats = exampleCounters 100 100,
      sdkRv = (\<lambda>c. OPENNSL_E_NONE), sdkLog = [], mirrorTable = [''A'', ''B''],
      mmuLossy = True, usePortResourceAPIs = False, platformTransmitterTech = OPTICAL,
      reportStats = True, additionalStats = (\<lambda>stats. stats),
      transmitterTechnology = UNKNOWN, ingressMirror = None, egressMirror = None,
      lastPortStats = \<lparr>portStats = HwPortStats_default (- 1), timeRetrieved = 0\<rparr>\<rparr>"

definition exampleSwPort :: Port where
  "exampleSwPort =
     \<lparr>swID = 1, swName = ''eth1/1/1'', swAdminState = ENABLED, swSpeed = HUNDREDG,
      swFEC = FEC_ON, swPauseTx = False, swPauseRx = False, swLoopbackMode = LB_NONE,
      swIngressVlan = 2000, swVlans = [(2000, False)], swPortQueues = [],
      swIsPortUp = False, swIngressMirror = Some ''A'', swEgressMirror = None\<rparr>"

text \<open>
  The same port enabled in hardware, already at the configured speed of 100G and in
  the interface mode that goes with it.  The software port \<open>exampleSwPort\<close> is
  administratively enabled and its link is down (\<open>isPortUp()\<close> is false).
\<close>

definition exampleEnabledPort :: BcmPort where
  "exampleEnabledPort =
     examplePort\<lparr>hwEnabled := True, hwSpeed := HUNDREDG,
                 hwInterface := OPENNSL_PORT_IF_CAUI\<rparr>"

section \<open>Example registry and bus\<close>

text \<open>An empty registry; its store gives the port on lane \<open>n\<close> the SAI id \<open>100 + n\<close>.\<close>

definition exampleManager :: SaiPortManager where
  "exampleManager =
     \<lparr>handles = Map.empty, portIds = Map.empty, saiLog = [],
      getHwPortLanes = (\<lambda>swId speed. [swId]),
      getTransmitterTech = (\<lambda>swId. COPPER),
      speedValue = (\<lambda>speed. if speed = HUNDREDG then 100000 else 25000),
      setObject = (\<lambda>lanes attributes. Some (100 + sum_list lanes)),
      addBridgePort = (\<lambda>saiPort. Some (200 + saiPort)),
      createQueues = (\<lambda>saiPort qs. Some qs)\<rparr>"

text \<open>
  A bus whose device state is the port its multiplexer has selected and the list of
  modules that are plugged in: a read succeeds when the selected module is plugged in.
\<close>

definition exampleBackend :: "(32 word \<times> 32 word list) I2CBackend" where
  "exampleBackend =
     \<lparr>NO_PORT = 0, ADDR_QSFP = 0x50,
      devWriteByte = (\<lambda>address byte d. (Some (), d)),
      devRead = (\<lambda>address len d.
        (if fst d \<in> set (snd d) then Some (replicate len 0) else None, d)),
      selectQsfpImpl = (\<lambda>port b.
        (Some (), b\<lparr>selectedPort := port, dev := (port, snd (dev b))\<rparr>))\<rparr>"

definition exampleBus :: "(32 word \<times> 32 word list) BaseWedgeI2CBus" where
  "exampleBus = \<lparr>selectedPort = 0, dev = (0, [1, 3])\<rparr>"


section \<open>Reading the outcome of a bus operation\<close>

text \<open>\<open>raises_only E m\<close>: when \<open>m\<close> does not return normally, its error is in \<open>E\<close>.\<close>

definition raises_only :: "error set \<Rightarrow> ('s, 'a) prog \<Rightarrow> bool" where
  "raises_only E m \<longleftrightarrow> (\<forall>s e. fst (m s) = Inl e \<longrightarrow> e \<in> E)"

definition probe_errors :: "error set" where
  "probe_errors = {I2cError, InvariantViolation}"

section \<open>Properties: mirror tunnels\<close>

text \<open>
  C10.  Equality and ordering of \<open>MirrorTunnel\<close> ignore \<open>udpPorts\<close>, although it is a
  stored field and a constructor parameter: two tunnels built from the same addresses,
  TTL and protocol but different \<open>udpPorts\<close> are equal under \<open>operator==\<close>, and
  neither is less than the other under \<open>operator<\<close>.
\<close>

theorem MirrorTunnel_compare_ignores_udpPorts:
  fixes sIp dIp :: "'ip::preorder" and sMac dMac :: "'mac::preorder"
  shows "tunnel_eq (mkMirrorTunnel sIp dIp sMac dMac ports1 t proto)
                   (mkMirrorTunnel sIp dIp sMac dMac ports2 t proto)
       \<and> \<not> tunnel_less (mkMirrorTunnel sIp dIp sMac dMac ports1 t proto)
                        (mkMirrorTunnel sIp dIp sMac dMac ports2 t proto)
       \<and> \<not> tunnel_less (mkMirrorTunnel sIp dIp sMac dMac ports2 t proto)
                        (mkMirrorTunnel sIp dIp sMac dMac ports1 t proto)"
  by (simp add: tunnel_eq_def tunnel_less_def mkMirrorTunnel_def tie_step_def)

theorem MirrorTunnel_compare_ignores_udpPorts_witness:
  "tunnel_eq (mkMirrorTunnel (10::nat) 20 (1::nat) 2 None kTTL kProto)
             (mkMirrorTunnel 10 20 1 2 (Some \<lparr>udpSrcPort = 6343, udpDstPort = 6344\<rparr>) kTTL kProto)
   \<and> \<not> tunnel_less (mkMirrorTunnel (10::nat) 20 (1::nat) 2 None kTTL kProto)
             (mkMirrorTunnel 10 20 1 2 (Some \<lparr>udpSrcPort = 6343, udpDstPort = 6344\<rparr>) kTTL kProto)
   \<and> \<not> tunnel_less
             (mkMirrorTunnel 10 20 1 2 (Some \<lparr>udpSrcPort = 6343, udpDstPort = 6344\<rparr>) kTTL kProto)
             (mkMirrorTunnel (10::nat) 20 (1::nat) 2 None kTTL kProto)"
  using MirrorTunnel_compare_ignores_udpPorts
    [of "10::nat" 20 "1::nat" 2 None kTTL kProto
        "Some \<lparr>udpSrcPort = 6343, udpDstPort = 6344\<rparr>"]
  by simp

section \<open>Properties: interface mode lookup\<close>

lemma kPortTypeMapping_rows:
  "map_of kPortTypeMapping speed = None \<longleftrightarrow> speed = DEFAULT \<or> (\<exists>n. speed = OTHER_SPEED n)"
  by (cases speed; simp add: kPortTypeMapping_def)

lemma kPortTypeMapping_at_None:
  "kPortTypeMapping_at speed tech = None \<longleftrightarrow>
     map_of kPortTypeMapping speed = None
     \<or> (tech = OPTICAL \<and> (speed = TWENTYG \<or> speed = GIGE))"
  by (cases speed; cases tech; simp add: kPortTypeMapping_at_def kPortTypeMapping_def)

lemma kPortTypeMapping_at_UNKNOWN:
  "map_of kPortTypeMapping speed \<noteq> None \<Longrightarrow> kPortTypeMapping_at speed UNKNOWN \<noteq> None"
  by (simp add: kPortTypeMapping_at_None)

text \<open>
  C2, as stated, fails: with optics on a 20G port the pair (20G, optical) is not in the
  table, the 20G row does have an unknown-technology default, and the lookup throws
  instead of falling back to it.
\<close>

theorem getDesiredInterfaceMode_no_fallback_counterexample:
  "fst (getTransmitterTechnology ''eth1/1/1'' examplePort) = Inr OPTICAL
   \<and> kPortTypeMapping_at TWENTYG UNKNOWN = Some OPENNSL_PORT_IF_CR
   \<and> fst (getDesiredInterfaceMode TWENTYG 1 ''eth1/1/1'' examplePort)
       = Inl UnsupportedConfiguration"
  by (simp add: getDesiredInterfaceMode_def getTransmitterTechnology_def bind_def throw_def
      ret_def examplePort_def kPortTypeMapping_at_def kPortTypeMapping_def)

text \<open>
  C2, amended.  For the technology \<open>tech\<close> that the port resolves,
  \<open>getDesiredInterfaceMode\<close> returns the mode the table maps the exact pair
  (speed, \<open>tech\<close>) to, and throws \<open>UnsupportedConfiguration\<close> when the exact pair is
  absent, without falling back.  The pair is absent exactly when the speed has no row
  (\<open>DEFAULT\<close>, or a value that is not an enumerator) and for optics at 20G or 1G; every
  speed that has a row has an unknown-technology entry, the mode used when the
  technology resolves to \<open>UNKNOWN\<close>.
\<close>

theorem getDesiredInterfaceMode_exact_pair:
  assumes "fst (getTransmitterTechnology name p) = Inr tech"
  shows "fst (getDesiredInterfaceMode speed ident name p) =
           (case kPortTypeMapping_at speed tech of
              Some mode \<Rightarrow> Inr mode
            | None \<Rightarrow> Inl UnsupportedConfiguration)
       \<and> (kPortTypeMapping_at speed tech = None \<longleftrightarrow>
            map_of kPortTypeMapping speed = None
            \<or> (tech = OPTICAL \<and> (speed = TWENTYG \<or> speed = GIGE)))
       \<and> (map_of kPortTypeMapping speed = None \<longleftrightarrow>
            speed = DEFAULT \<or> (\<exists>n. speed = OTHER_SPEED n))
       \<and> (map_of kPortTypeMapping speed \<noteq> None \<longrightarrow>
            kPortTypeMapping_at speed UNKNOWN \<noteq> None)"
proof -
  have "fst (getDesiredInterfaceMode speed ident name p) =
           (case kPortTypeMapping_at speed tech of
              Some mode \<Rightarrow> Inr mode
            | None \<Rightarrow> Inl UnsupportedConfiguration)"
    using assms
    by (cases "getTransmitterTechnology name p")
       (simp add: getDesiredInterfaceMode_def bind_def ret_def throw_def split: option.splits)
  then show ?thesis
    using kPortTypeMapping_at_None [of speed tech] kPortTypeMapping_at_UNKNOWN [of speed]
      kPortTypeMapping_rows [of speed]
    by blast
qed

theorem getDesiredInterfaceMode_exact_pair_witness:
  "fst (getTransmitterTechnology ''eth1/1/1'' examplePort) = Inr OPTICAL
   \<and> fst (getDesiredInterfaceMode HUNDREDG 1 ''eth1/1/1'' examplePort)
       = Inr OPENNSL_PORT_IF_CAUI
   \<and> kPortTypeMapping_at HUNDREDG UNKNOWN \<noteq> None"
proof -
  have h: "fst (getTransmitterTechnology ''eth1/1/1'' examplePort) = Inr OPTICAL"
    by (simp add: getTransmitterTechnology_def examplePort_def)
  show ?thesis
    using h getDesiredInterfaceMode_exact_pair [OF h, of HUNDREDG 1]
    by (simp add: kPortTypeMapping_at_def kPortTypeMapping_def)
qed

section \<open>Properties: the handle registry\<close>

text \<open>
  C7.  Adding a port whose id already has a handle fails with \<open>DuplicateResource\<close>
  and leaves the manager as it was: the handle is not replaced, the registry and the
  reverse index are unmodified, and no call has gone to the store, the bridge manager
  or the queue manager.
\<close>

theorem addPort_existing_handle:
  assumes "handles m (swID swPort) = Some (Some h)"
  shows "addPort swPort m = (Inl DuplicateResource, m)"
  using assms by (simp add: addPort_def getPortHandle_def bind_def throw_def)

theorem addPort_existing_handle_witness:
  "handles (snd (addPort exampleSwPort exampleManager)) (swID exampleSwPort)
     = Some (Some \<lparr>adapterKey = 101, bridgePort = 301, queues = []\<rparr>)
   \<and> addPort exampleSwPort (snd (addPort exampleSwPort exampleManager))
     = (Inl DuplicateResource, snd (addPort exampleSwPort exampleManager))"
proof -
  have h: "handles (snd (addPort exampleSwPort exampleManager)) (swID exampleSwPort)
     = Some (Some \<lparr>adapterKey = 101, bridgePort = 301, queues = []\<rparr>)"
    by (simp add: addPort_def getPortHandle_def bind_def throw_def exampleManager_def
        exampleSwPort_def backend_call_def attributesFromSwPort_def Let_def emplace_def)
  show ?thesis
    using h addPort_existing_handle [OF h] by simp
qed

lemma index_sound_erase:
  assumes "handles m swId = Some (Some h)" and "index_sound m"
  shows "index_sound (eraseReverseIndex (adapterKey h) m)"
    and "index_sound (eraseHandle swId (eraseReverseIndex (adapterKey h) m))"
proof -
  show "index_sound (eraseReverseIndex (adapterKey h) m)"
    using assms(2) by (auto simp: index_sound_def eraseReverseIndex_def split: if_splits)
  show "index_sound (eraseHandle swId (eraseReverseIndex (adapterKey h) m))"
    unfolding index_sound_def
  proof (intro allI impI)
    fix key swId'
    assume "portIds (eraseHandle swId (eraseReverseIndex (adapterKey h) m)) key = Some swId'"
    then have key: "key \<noteq> adapterKey h" and idx: "portIds m key = Some swId'"
      by (auto simp: eraseReverseIndex_def eraseHandle_def split: if_splits)
    from assms(2) idx obtain h' where h': "handles m swId' = Some (Some h')" "adapterKey h' = key"
      unfolding index_sound_def by blast
    with key assms(1) have "swId' \<noteq> swId" by auto
    with h' show "\<exists>g. handles (eraseHandle swId (eraseReverseIndex (adapterKey h) m)) swId'
                     = Some (Some g) \<and> adapterKey g = key"
      by (simp add: eraseReverseIndex_def eraseHandle_def)
  qed
qed

text \<open>
  C6.  Removing a port that has no handle fails with \<open>MissingResource\<close> and changes
  nothing.  When the port has a handle, \<open>removePort\<close> first erases the reverse-index
  entry of the handle's SAI id and then erases the handle: in the state between the two
  statements the index entry is gone and the handle is still in the registry, afterwards
  both are gone, and a reverse index that names only ports with a live handle stays so
  in both states.
\<close>

theorem removePort_index_before_handle:
  "(handles m swId = None \<longrightarrow> removePort swId m = (Inl MissingResource, m))
 \<and> (handles m swId = Some (Some h) \<longrightarrow>
      removePort_states swId m =
        Inr [eraseReverseIndex (adapterKey h) m,
             eraseHandle swId (eraseReverseIndex (adapterKey h) m)]
    \<and> removePort swId m = (Inr (), eraseHandle swId (eraseReverseIndex (adapterKey h) m))
    \<and> portIds (eraseReverseIndex (adapterKey h) m) (adapterKey h) = None
    \<and> handles (eraseReverseIndex (adapterKey h) m) swId = Some (Some h)
    \<and> portIds (snd (removePort swId m)) (adapterKey h) = None
    \<and> handles (snd (removePort swId m)) swId = None
    \<and> (index_sound m \<longrightarrow>
          index_sound (eraseReverseIndex (adapterKey h) m)
        \<and> index_sound (snd (removePort swId m))))"
  using index_sound_erase [of m swId h]
  by (auto simp: removePort_def removePort_states_def Let_def eraseReverseIndex_def eraseHandle_def)

theorem removePort_index_before_handle_witness:
  "handles exampleManager 1 = None
 \<and> fst (removePort 1 exampleManager) = Inl MissingResource
 \<and> handles (snd (addPort exampleSwPort exampleManager)) 1
      = Some (Some \<lparr>adapterKey = 101, bridgePort = 301, queues = []\<rparr>)
 \<and> portIds (snd (addPort exampleSwPort exampleManager)) 101 = Some 1
 \<and> index_sound (snd (addPort exampleSwPort exampleManager))
 \<and> fst (removePort 1 (snd (addPort exampleSwPort exampleManager))) = Inr ()
 \<and> portIds (snd (removePort 1 (snd (addPort exampleSwPort exampleManager)))) 101 = None
 \<and> handles (snd (removePort 1 (snd (addPort exampleSwPort exampleManager)))) 1 = None
 \<and> index_sound (snd (removePort 1 (snd (addPort exampleSwPort exampleManager))))"
proof -
  let ?m = "snd (addPort exampleSwPort exampleManager)"
  let ?h = "\<lparr>adapterKey = 101, bridgePort = 301, queues = []\<rparr>"
  have e: "handles exampleManager 1 = None"
    by (simp add: exampleManager_def)
  have h: "handles ?m 1 = Some (Some ?h)"
    by (simp add: addPort_def getPortHandle_def bind_def throw_def exampleManager_def
        exampleSwPort_def backend_call_def attributesFromSwPort_def Let_def emplace_def)
  have i: "portIds ?m = [101 \<mapsto> 1]"
    by (simp add: addPort_def getPortHandle_def bind_def throw_def exampleManager_def
        exampleSwPort_def backend_call_def attributesFromSwPort_def Let_def emplace_def)
  have s: "index_sound ?m"
    unfolding index_sound_def using h i by (auto split: if_splits)
  note none = removePort_index_before_handle [of exampleManager 1 ?h, THEN conjunct1, THEN mp, OF e]
  note some = removePort_index_before_handle [of ?m 1 ?h, THEN conjunct2, THEN mp, OF h]
  have r1: "fst (removePort 1 exampleManager) = Inl MissingResource"
    using none by simp
  have r2: "fst (removePort 1 ?m) = Inr ()"
    using some by simp
  have r3: "portIds (snd (removePort 1 ?m)) (adapterKey ?h) = None"
    using some by blast
  have r4: "handles (snd (removePort 1 ?m)) 1 = None"
    using some by blast
  have r5: "index_sound (snd (removePort 1 ?m))"
    using some s by blast
  show ?thesis
    using e h i s r1 r2 r3 r4 r5 by simp
qed

section \<open>Properties: the log of a port's calls\<close>

lemma emits_le_ret: "emits_le P 0 (ret x)"
  by (simp add: emits_le_def ret_def)

lemma emits_le_throw: "emits_le P 0 (throw e)"
  by (simp add: emits_le_def throw_def)

lemma emits_le_mono: "emits_le P a m \<Longrightarrow> a \<le> b \<Longrightarrow> emits_le P b m"
  unfolding emits_le_def by (meson le_trans)

lemma emits_le_bind:
  assumes "emits_le P a m" and "\<And>x. emits_le P b (f x)"
  shows "emits_le P (a + b) (bind m f)"
  unfolding emits_le_def
proof
  fix s
  obtain c1 where c1: "sdkLog (snd (m s)) = sdkLog s @ c1" "length (filter P c1) \<le> a"
    using assms(1) unfolding emits_le_def by blast
  show "\<exists>calls. sdkLog (snd (bind m f s)) = sdkLog s @ calls \<and> length (filter P calls) \<le> a + b"
  proof (cases "m s")
    case (Pair r s1)
    show ?thesis
    proof (cases r)
      case (Inl e)
      with Pair c1 show ?thesis by (auto simp: bind_def)
    next
      case (Inr x)
      obtain c2 where c2: "sdkLog (snd (f x s1)) = sdkLog s1 @ c2" "length (filter P c2) \<le> b"
        using assms(2) unfolding emits_le_def by blast
      with Pair Inr c1 show ?thesis by (auto simp: bind_def intro!: exI [of _ "c1 @ c2"])
    qed
  qed
qed

lemma emits_le_next_do:
  assumes "emits_le P a m" and "emits_le P b k"
  shows "emits_le P (a + b) (next_do m k)"
  unfolding next_do_def using assms by (intro emits_le_bind) auto

lemma sdkLog_sdk_effect [simp]: "sdkLog (sdk_effect c p) = sdkLog p"
  by (cases c) (simp_all add: sdk_effect_def)

lemma emits_le_sdk_write: "emits_le P (if P c then 1 else 0) (sdk_write c)"
  by (simp add: emits_le_def sdk_write_def Let_def)

lemma emits_le_bcmCheckError: "emits_le P 0 (bcmCheckError rv)"
  by (simp add: bcmCheckError_def emits_le_ret emits_le_throw)

lemma emits_le_sdk_set: "emits_le P (if P c then 1 else 0) (sdk_set c)"
  unfolding sdk_set_def
  using emits_le_bind [OF emits_le_sdk_write, of P 0 bcmCheckError c] emits_le_bcmCheckError
  by simp

lemma emits_le_sdk_get: "emits_le P 0 (sdk_get c f)"
  by (simp add: emits_le_def sdk_get_def)

lemma emits_le_sdk_set0: "\<not> P c \<Longrightarrow> emits_le P 0 (sdk_set c)"
  using emits_le_sdk_set [of P c] by simp

lemma emits_le_sdk_set1: "emits_le P (Suc 0) (sdk_set c)"
  using emits_le_sdk_set [of P c] by (auto intro: emits_le_mono split: if_splits)

lemma emits_le_bind0:
  assumes "emits_le P 0 m" and "\<And>x. emits_le P b (f x)"
  shows "emits_le P b (bind m f)"
  using emits_le_bind [OF assms] by simp

lemma emits_le_getTransmitterTechnology: "emits_le P 0 (getTransmitterTechnology name)"
  by (simp add: emits_le_def getTransmitterTechnology_def Let_def)

lemma emits_le_getDesiredInterfaceMode: "emits_le P 0 (getDesiredInterfaceMode speed i name)"
  unfolding getDesiredInterfaceMode_def
  by (rule emits_le_bind0 [OF emits_le_getTransmitterTechnology])
     (simp add: emits_le_ret emits_le_throw split: option.split)

lemma emits_le_getDesiredPortSpeed: "emits_le P 0 (getDesiredPortSpeed swPort)"
  by (simp add: getDesiredPortSpeed_def emits_le_ret emits_le_sdk_get)

lemma emits_le_setInterfaceMode:
  "emits_le P (if \<exists>m. P (InterfaceSet m) then Suc 0 else 0) (setInterfaceMode swPort)"
  unfolding setInterfaceMode_def
  apply (rule emits_le_bind0 [OF emits_le_getDesiredPortSpeed])
  apply (rule emits_le_bind0 [OF emits_le_getDesiredInterfaceMode])
  apply (rule emits_le_bind0 [OF emits_le_sdk_get])
  apply (auto intro: emits_le_ret emits_le_sdk_set0 emits_le_sdk_set1 emits_le_mono [OF emits_le_ret])
  done



lemma emits_le_next_do_l:
  "emits_le P n m \<Longrightarrow> emits_le P 0 k \<Longrightarrow> emits_le P n (next_do m k)"
  using emits_le_next_do [of P n m 0 k] by simp

lemma emits_le_next_do_r:
  "emits_le P 0 m \<Longrightarrow> emits_le P n k \<Longrightarrow> emits_le P n (next_do m k)"
  using emits_le_next_do [of P 0 m n k] by simp

lemma emits_le_if:
  "emits_le P n m \<Longrightarrow> emits_le P n k \<Longrightarrow> emits_le P n (if b then m else k)"
  by simp

lemma emits_le_if_state:
  "emits_le P n m \<Longrightarrow> emits_le P n k \<Longrightarrow> emits_le P n (\<lambda>s. if c s then m s else k s)"
  by (simp add: emits_le_def)

lemma emits_le_stateI:
  assumes "\<And>x. emits_le P n (f x)"
  shows "emits_le P n (\<lambda>s. f (g s) s)"
  using assms unfolding emits_le_def by blast

lemma emits_le_setIngressVlan:
  "(\<And>v. \<not> P (UntaggedVlanSet v)) \<Longrightarrow> emits_le P 0 (setIngressVlan swPort)"
  unfolding setIngressVlan_def
  by (rule emits_le_bind0 [OF emits_le_sdk_get]) (simp add: emits_le_ret emits_le_sdk_set0)

lemma emits_le_applyMirrorAction:
  "(\<And>a n d. \<not> P (PortMirrorAction a n d)) \<Longrightarrow> emits_le P 0 (applyMirrorAction mn a d)"
  unfolding applyMirrorAction_def
  apply (cases mn)
   apply (simp add: emits_le_ret)
  apply simp
  apply (rule emits_le_if_state)
   apply (rule emits_le_sdk_set0)
   apply simp
  apply (rule emits_le_throw)
  done

lemma emits_le_updateMirror:
  assumes "\<And>a n d. \<not> P (PortMirrorAction a n d)"
  shows "emits_le P 0 (updateMirror mn d)"
  unfolding updateMirror_def
  apply (rule emits_le_next_do_l)
   apply (rule emits_le_stateI [where f = "\<lambda>x. applyMirrorAction x STOP d" and g = "boundMirror d"])
   apply (rule emits_le_applyMirrorAction)
   apply (rule assms)
  apply (rule emits_le_next_do_l)
   apply (simp add: emits_le_def bindMirror_def)
  apply (rule emits_le_stateI [where f = "\<lambda>x. applyMirrorAction x START d" and g = "boundMirror d"])
  apply (rule emits_le_applyMirrorAction)
  apply (rule assms)
  done

lemma emits_le_addVlans:
  "(\<And>v u. \<not> P (VlanPortAdd v u)) \<Longrightarrow> emits_le P 0 (addVlans entries)"
  by (induction entries rule: addVlans.induct)
     (auto simp: emits_le_ret intro!: emits_le_next_do_l emits_le_sdk_set0)

text \<open>Speed and interface-mode writes.\<close>

lemma emits_le_setSpeed_speed: "emits_le isSpeedSet (Suc 0) (setSpeed swPort)"
  unfolding setSpeed_def
  apply (rule emits_le_bind0 [OF emits_le_getDesiredPortSpeed])
  apply (rule emits_le_bind0 [OF emits_le_sdk_get [of _ SpeedGet hwSpeed, folded getSpeed_def]])
  apply (rule emits_le_if)
   apply (rule emits_le_next_do_r)
    apply (rule emits_le_mono [OF emits_le_setInterfaceMode])
    apply (simp add: isSpeedSet_def)
   apply (rule emits_le_next_do_l)
    apply (rule emits_le_sdk_set1)
   apply (rule emits_le_sdk_set0)
   apply (simp add: isSpeedSet_def)
  apply (rule emits_le_mono [OF emits_le_ret])
  apply simp
  done

lemma emits_le_setSpeed_interface: "emits_le isInterfaceSet (Suc 0) (setSpeed swPort)"
  unfolding setSpeed_def
  apply (rule emits_le_bind0 [OF emits_le_getDesiredPortSpeed])
  apply (rule emits_le_bind0 [OF emits_le_sdk_get [of _ SpeedGet hwSpeed, folded getSpeed_def]])
  apply (rule emits_le_if)
   apply (rule emits_le_next_do_l)
    apply (rule emits_le_mono [OF emits_le_setInterfaceMode])
    apply (simp add: isInterfaceSet_def)
   apply (rule emits_le_next_do_l)
    apply (rule emits_le_sdk_set0)
    apply (simp add: isInterfaceSet_def)
   apply (rule emits_le_sdk_set0)
   apply (simp add: isInterfaceSet_def)
  apply (rule emits_le_mono [OF emits_le_ret])
  apply simp
  done

lemma emits_le_setSpeed_attr: "emits_le (\<lambda>c. \<not> isAttributeCall c) 0 (setSpeed swPort)"
  unfolding setSpeed_def
  apply (rule emits_le_bind0 [OF emits_le_getDesiredPortSpeed])
  apply (rule emits_le_bind0 [OF emits_le_sdk_get [of _ SpeedGet hwSpeed, folded getSpeed_def]])
  apply (rule emits_le_if)
   apply (rule emits_le_next_do_l)
    apply (rule emits_le_mono [OF emits_le_setInterfaceMode])
    apply (simp add: isAttributeCall_def)
   apply (rule emits_le_next_do_l)
    apply (rule emits_le_sdk_set0)
    apply (simp add: isAttributeCall_def)
   apply (rule emits_le_sdk_set0)
   apply (simp add: isAttributeCall_def)
  apply (rule emits_le_ret)
  done

lemma emits_le_program:
  assumes setSpeed: "emits_le P n (setSpeed port)"
    and rest: "\<And>c. isAttributeCall c \<Longrightarrow> \<not> isSpeedSet c \<Longrightarrow> \<not> isInterfaceSet c \<Longrightarrow> \<not> P c"
  shows "emits_le P n (program port)"
  unfolding program_def
  apply (rule emits_le_next_do_r)
   apply (rule emits_le_setIngressVlan)
   apply (rule rest; simp add: isAttributeCall_def isSpeedSet_def isInterfaceSet_def)
  apply (rule emits_le_next_do_l)
   apply (rule emits_le_if_state)
    apply (rule emits_le_mono [OF emits_le_sdk_set0])
     apply (rule rest; simp add: isAttributeCall_def isSpeedSet_def isInterfaceSet_def)
    apply simp
   apply (rule emits_le_next_do_l [OF setSpeed])
   apply (rule emits_le_sdk_set0)
   apply (rule rest; simp add: isAttributeCall_def isSpeedSet_def isInterfaceSet_def)
  apply (rule emits_le_next_do_l)
   apply (rule emits_le_updateMirror)
   apply (rule rest; simp add: isAttributeCall_def isSpeedSet_def isInterfaceSet_def)
  apply (rule emits_le_next_do_l)
   apply (rule emits_le_updateMirror)
   apply (rule rest; simp add: isAttributeCall_def isSpeedSet_def isInterfaceSet_def)
  apply (rule emits_le_next_do_l)
   apply (rule emits_le_sdk_set0)
   apply (rule rest; simp add: isAttributeCall_def isSpeedSet_def isInterfaceSet_def)
  apply (rule emits_le_next_do_l)
   apply (rule emits_le_sdk_set0)
   apply (rule rest; simp add: isAttributeCall_def isSpeedSet_def isInterfaceSet_def)
  apply (rule emits_le_next_do_l)
   apply (rule emits_le_sdk_set0)
   apply (rule rest; simp add: isAttributeCall_def isSpeedSet_def isInterfaceSet_def)
  apply (rule emits_le_sdk_set0)
  apply (rule rest; simp add: isAttributeCall_def isSpeedSet_def isInterfaceSet_def)
  done

lemma emits_le_program_speed: "emits_le isSpeedSet (Suc 0) (program port)"
  by (rule emits_le_program [OF emits_le_setSpeed_speed]) simp

lemma emits_le_program_interface: "emits_le isInterfaceSet (Suc 0) (program port)"
  by (rule emits_le_program [OF emits_le_setSpeed_interface]) simp

lemma emits_le_program_attr: "emits_le (\<lambda>c. \<not> isAttributeCall c) 0 (program port)"
  by (rule emits_le_program [OF emits_le_setSpeed_attr]) simp

lemma emits_le_enable:
  assumes prog: "emits_le P n (program swPort)"
    and rest: "\<And>c. \<not> isAttributeCall c \<Longrightarrow> \<not> P c"
  shows "emits_le P n (enable swPort)"
  unfolding enable_def isEnabled_def
  apply (rule emits_le_bind0 [OF emits_le_sdk_get])
  apply (rule emits_le_if)
   apply (rule emits_le_mono [OF emits_le_ret], simp)
  apply (rule emits_le_next_do_r)
   apply (rule emits_le_addVlans)
   apply (rule rest, simp add: isAttributeCall_def)
  apply (rule emits_le_next_do_r)
   apply (rule emits_le_sdk_set0)
   apply (rule rest, simp add: isAttributeCall_def)
  apply (rule emits_le_next_do_l [OF prog])
  apply (rule emits_le_next_do_l)
   apply (rule emits_le_bind0)
    apply (rule emits_le_mono [OF emits_le_sdk_write])
    apply (simp add: rest isAttributeCall_def)
   apply (simp add: emits_le_ret emits_le_bcmCheckError)
  apply (rule emits_le_sdk_set0)
  apply (rule rest, simp add: isAttributeCall_def)
  done

lemma emits_le_enable_speed: "emits_le isSpeedSet (Suc 0) (enable swPort)"
  by (rule emits_le_enable [OF emits_le_program_speed])
     (auto simp: isAttributeCall_def isSpeedSet_def split: sdk_call.splits)

lemma emits_le_enable_interface: "emits_le isInterfaceSet (Suc 0) (enable swPort)"
  by (rule emits_le_enable [OF emits_le_program_interface])
     (auto simp: isAttributeCall_def isInterfaceSet_def split: sdk_call.splits)

lemma bind_Inr:
  assumes "fst (bind m f s) = Inr y"
  obtains x s' where "m s = (Inr x, s')" and "bind m f s = f x s'"
  using assms by (cases "m s"; cases "fst (m s)") (auto simp: bind_def)

lemma next_do_Inr:
  assumes "fst (next_do m k s) = Inr y"
  obtains s' where "m s = (Inr (), s')" and "next_do m k s = k s'"
  using assms unfolding next_do_def by (elim bind_Inr) auto

lemma bind_Inr_eq: "m s = (Inr x, s') \<Longrightarrow> bind m f s = f x s'"
  by (simp add: bind_def)

lemma bind_Inl_eq: "m s = (Inl e, s') \<Longrightarrow> bind m f s = (Inl e, s')"
  by (simp add: bind_def)

lemma emits_ok_sdk_set: "emits_ok c (sdk_set c)"
  by (auto simp: emits_ok_def sdk_set_def sdk_write_def bind_def Let_def bcmCheckError_def
      ret_def throw_def)

lemma emits_ok_skip:
  assumes "emits_le P n m" and "emits_ok c k"
  shows "emits_ok c (next_do m k)"
  unfolding emits_ok_def
proof (intro allI impI)
  fix s assume "\<exists>y. fst (next_do m k s) = Inr y"
  then obtain y where y: "fst (next_do m k s) = Inr y" by blast
  then obtain s' where s': "m s = (Inr (), s')" "next_do m k s = k s'"
    by (rule next_do_Inr)
  obtain c1 where c1: "sdkLog s' = sdkLog s @ c1"
    using assms(1) s'(1) unfolding emits_le_def by (metis snd_conv)
  obtain c2 where c2: "sdkLog (snd (k s')) = sdkLog s' @ c2" "c \<in> set c2"
    using assms(2) y s'(2) unfolding emits_ok_def by metis
  show "\<exists>calls. sdkLog (snd (next_do m k s)) = sdkLog s @ calls \<and> c \<in> set calls"
    using c1 c2 s'(2) by (intro exI [of _ "c1 @ c2"]) simp
qed

lemma emits_ok_first:
  assumes "emits_ok c m" and "emits_le P n k"
  shows "emits_ok c (next_do m k)"
  unfolding emits_ok_def
proof (intro allI impI)
  fix s assume "\<exists>y. fst (next_do m k s) = Inr y"
  then obtain y where y: "fst (next_do m k s) = Inr y" by blast
  then obtain s' where s': "m s = (Inr (), s')" "next_do m k s = k s'"
    by (rule next_do_Inr)
  obtain c1 where c1: "sdkLog s' = sdkLog s @ c1" "c \<in> set c1"
    using assms(1) s'(1) unfolding emits_ok_def by (metis fst_conv snd_conv)
  obtain c2 where c2: "sdkLog (snd (k s')) = sdkLog s' @ c2"
    using assms(2) unfolding emits_le_def by blast
  show "\<exists>calls. sdkLog (snd (next_do m k s)) = sdkLog s @ calls \<and> c \<in> set calls"
    using c1 c2 s'(2) by (intro exI [of _ "c1 @ c2"]) simp
qed

lemma emits_le_program_branch:
  "emits_le (\<lambda>c. \<not> isAttributeCall c) 0
     (\<lambda>p. if usePortResourceAPIs p then sdk_set SetPortResource p
           else next_do (setSpeed port) (sdk_set SetFEC) p)"
  apply (rule emits_le_if_state)
   apply (rule emits_le_sdk_set0, simp add: isAttributeCall_def)
  apply (rule emits_le_next_do_l [OF emits_le_setSpeed_attr])
  apply (rule emits_le_sdk_set0, simp add: isAttributeCall_def)
  done

lemma emits_ok_program: "emits_ok SetSflowRates (program port)"
  unfolding program_def
  apply (rule emits_ok_skip [OF emits_le_setIngressVlan [where P = "\<lambda>c. False"]], simp)
  apply (rule emits_ok_skip [OF emits_le_program_branch])
  apply (rule emits_ok_skip [OF emits_le_updateMirror [where P = "\<lambda>c. False"]], simp)
  apply (rule emits_ok_skip [OF emits_le_updateMirror [where P = "\<lambda>c. False"]], simp)
  apply (rule emits_ok_skip [OF emits_le_sdk_set1])
  apply (rule emits_ok_skip [OF emits_le_sdk_set1])
  apply (rule emits_ok_first [OF emits_ok_sdk_set emits_le_sdk_set1])
  done

lemma program_ok:
  assumes "fst (program port s) = Inr y"
  shows "\<exists>attrs. sdkLog (snd (program port s)) = sdkLog s @ attrs
           \<and> list_all isAttributeCall attrs \<and> SetSflowRates \<in> set attrs"
proof -
  obtain c1 where c1: "sdkLog (snd (program port s)) = sdkLog s @ c1"
      "length (filter (\<lambda>c. \<not> isAttributeCall c) c1) \<le> 0"
    using emits_le_program_attr [of port] unfolding emits_le_def by blast
  obtain c2 where c2: "sdkLog (snd (program port s)) = sdkLog s @ c2" "SetSflowRates \<in> set c2"
    using emits_ok_program [of port] assms unfolding emits_ok_def by blast
  have "c1 = c2" using c1(1) c2(1) by simp
  moreover have "list_all isAttributeCall c1"
    using c1(2) by (simp add: list_all_iff filter_empty_conv)
  ultimately show ?thesis using c1(1) c2(2) by blast
qed

lemma addVlans_ok:
  "fst (addVlans entries s) = Inr y \<Longrightarrow>
     sdkLog (snd (addVlans entries s)) =
       sdkLog s @ map (\<lambda>(vlan, tagged). VlanPortAdd vlan (\<not> tagged)) entries"
proof (induction entries arbitrary: s)
  case Nil
  then show ?case by (simp add: ret_def)
next
  case (Cons e entries)
  obtain vlan tagged where e: "e = (vlan, tagged)" by (cases e)
  from Cons.prems e obtain s' where
    s': "sdk_set (VlanPortAdd vlan (\<not> tagged)) s = (Inr (), s')"
        "addVlans (e # entries) s = addVlans entries s'"
    by (auto elim: next_do_Inr)
  have log: "sdkLog s' = sdkLog s @ [VlanPortAdd vlan (\<not> tagged)]"
    using s'(1)
    by (auto simp: sdk_set_def sdk_write_def bind_def Let_def bcmCheckError_def ret_def throw_def
        split: if_splits)
  from Cons.IH [of s'] Cons.prems s'(2) log e show ?case by simp
qed

lemma sdk_set_ok:
  assumes "sdk_set c s = (Inr (), s')"
  shows "sdkLog s' = sdkLog s @ [c]" and "sdkRv s c = OPENNSL_E_NONE"
    and "s' = sdk_effect c (s\<lparr>sdkLog := sdkLog s @ [c]\<rparr>)"
  using assms
  by (auto simp: sdk_set_def sdk_write_def bind_def Let_def bcmCheckError_def ret_def throw_def
      split: if_splits)

lemma enable_already:
  "hwEnabled p \<Longrightarrow> snd (enable swPort p) = p"
  by (simp add: enable_def isEnabled_def sdk_get_def bind_def ret_def)

lemma statEnable_ok:
  assumes "(bind (sdk_write (StatEnableSet True)) (\<lambda>rv.
              if rv \<noteq> OPENNSL_E_EXISTS then bcmCheckError rv else ret ())) s = (Inr (), s')"
  shows "sdkLog s' = sdkLog s @ [StatEnableSet True]"
  using assms
  by (auto simp: sdk_write_def bind_def Let_def bcmCheckError_def ret_def throw_def sdk_effect_def
      split: if_splits)

lemma enable_ok:
  assumes dis: "\<not> hwEnabled p" and ok: "fst (enable swPort p) = Inr ()"
  shows "\<exists>attrs. sdkLog (snd (enable swPort p)) =
            sdkLog p @ map (\<lambda>(vlan, tagged). VlanPortAdd vlan (\<not> tagged)) (swVlans swPort)
              @ [VlanMemberSet] @ attrs @ [StatEnableSet True, EnableSet True]
          \<and> list_all isAttributeCall attrs \<and> SetSflowRates \<in> set attrs
          \<and> hwEnabled (snd (enable swPort p))"
proof -
  let ?tail = "next_do (addVlans (swVlans swPort))
        (next_do (sdk_set VlanMemberSet)
        (next_do (program swPort)
        (next_do (bind (sdk_write (StatEnableSet True)) (\<lambda>rv.
                    if rv \<noteq> OPENNSL_E_EXISTS then bcmCheckError rv else ret ()))
                 (sdk_set (EnableSet True)))))"
  let ?t1 = "next_do (sdk_set VlanMemberSet)
        (next_do (program swPort)
        (next_do (bind (sdk_write (StatEnableSet True)) (\<lambda>rv.
                    if rv \<noteq> OPENNSL_E_EXISTS then bcmCheckError rv else ret ()))
                 (sdk_set (EnableSet True))))"
  let ?t2 = "next_do (program swPort)
        (next_do (bind (sdk_write (StatEnableSet True)) (\<lambda>rv.
                    if rv \<noteq> OPENNSL_E_EXISTS then bcmCheckError rv else ret ()))
                 (sdk_set (EnableSet True)))"
  let ?t3 = "next_do (bind (sdk_write (StatEnableSet True)) (\<lambda>rv.
                    if rv \<noteq> OPENNSL_E_EXISTS then bcmCheckError rv else ret ()))
                 (sdk_set (EnableSet True))"
  have en: "enable swPort p = ?tail p"
  proof (cases "sdkRv p EnableGet = OPENNSL_E_NONE")
    case True
    then have h: "isEnabled p = (Inr False, p)"
      using dis by (simp add: isEnabled_def sdk_get_def)
    show ?thesis
      unfolding enable_def by (simp add: bind_Inr_eq [of isEnabled p False p, OF h])
  next
    case False
    then have h: "isEnabled p = (Inl BackendRejected, p)"
      by (simp add: isEnabled_def sdk_get_def)
    have "enable swPort p = (Inl BackendRejected, p)"
      unfolding enable_def by (simp add: bind_Inl_eq [of isEnabled p BackendRejected p, OF h])
    with ok show ?thesis by simp
  qed
  have ok0: "fst (?tail p) = Inr ()"
    using ok en by simp
  from ok0 obtain s1 where s1: "addVlans (swVlans swPort) p = (Inr (), s1)"
    and t1: "?tail p = ?t1 s1"
    by (rule next_do_Inr)
  from ok0 t1 have ok1: "fst (?t1 s1) = Inr ()" by simp
  from ok1 obtain s2 where s2: "sdk_set VlanMemberSet s1 = (Inr (), s2)"
    and t2: "?t1 s1 = ?t2 s2"
    by (rule next_do_Inr)
  from ok1 t2 have ok2: "fst (?t2 s2) = Inr ()" by simp
  from ok2 obtain s3 where s3: "program swPort s2 = (Inr (), s3)"
    and t3: "?t2 s2 = ?t3 s3"
    by (rule next_do_Inr)
  from ok2 t3 have ok3: "fst (?t3 s3) = Inr ()" by simp
  from ok3 obtain s4 where s4: "(bind (sdk_write (StatEnableSet True)) (\<lambda>rv.
                    if rv \<noteq> OPENNSL_E_EXISTS then bcmCheckError rv else ret ())) s3 = (Inr (), s4)"
    and t4: "?t3 s3 = sdk_set (EnableSet True) s4"
    by (rule next_do_Inr)
  have fin: "?tail p = sdk_set (EnableSet True) s4"
    using t1 t2 t3 t4 by simp
  have "fst (sdk_set (EnableSet True) s4) = Inr ()"
    using ok0 fin by simp
  then have s5: "sdk_set (EnableSet True) s4 = (Inr (), snd (?tail p))"
    using fin by (metis prod.collapse)
  have l1: "sdkLog s1 = sdkLog p @ map (\<lambda>(vlan, tagged). VlanPortAdd vlan (\<not> tagged)) (swVlans swPort)"
    using addVlans_ok [of "swVlans swPort" p] s1 by simp
  have l2: "sdkLog s2 = sdkLog s1 @ [VlanMemberSet]"
    using sdk_set_ok(1) [OF s2] .
  obtain attrs where l3: "sdkLog s3 = sdkLog s2 @ attrs" "list_all isAttributeCall attrs"
      "SetSflowRates \<in> set attrs"
    using program_ok [of swPort s2] s3 by auto
  have l4: "sdkLog s4 = sdkLog s3 @ [StatEnableSet True]"
    using statEnable_ok [OF s4] .
  have l5: "sdkLog (snd (?tail p)) = sdkLog s4 @ [EnableSet True]"
    using sdk_set_ok(1) [OF s5] .
  have h5: "hwEnabled (snd (?tail p))"
    using sdk_set_ok(3) [OF s5] by (simp add: sdk_effect_def)
  show ?thesis
    unfolding en using l1 l2 l3 l4 l5 h5 by (intro exI [of _ attrs]) simp
qed

lemmas port_exec_defs = enable_def isEnabled_def sdk_get_def bind_def next_do_def
  sdk_set_def sdk_write_def bcmCheckError_def ret_def throw_def program_def setIngressVlan_def
  setSpeed_def getSpeed_def getDesiredPortSpeed_def setInterfaceMode_def
  getDesiredInterfaceMode_def getTransmitterTechnology_def kPortTypeMapping_at_def
  kPortTypeMapping_def updateMirror_def applyMirrorAction_def boundMirror_def bindMirror_def
  sdk_effect_def Let_def

lemma examplePort_enable_log:
  "sdkLog (snd (enable exampleSwPort examplePort)) =
     [VlanPortAdd 2000 True, VlanMemberSet, UntaggedVlanSet 2000,
      InterfaceSet OPENNSL_PORT_IF_CAUI, SpeedSet HUNDREDG, LinkSpeedChanged HUNDREDG, SetFEC,
      PortMirrorAction START ''A'' INGRESS, SetPause, SetTxSetting, SetSflowRates,
      SetLoopbackMode, StatEnableSet True, EnableSet True]"
  by (simp add: port_exec_defs examplePort_def exampleSwPort_def)

lemma examplePort_enable_ok: "fst (enable exampleSwPort examplePort) = Inr ()"
  by (simp add: port_exec_defs examplePort_def exampleSwPort_def)





section \<open>Properties: mirror rebinding\<close>

lemmas mirror_defs = updateMirror_def next_do_def bind_def applyMirrorAction_def sdk_set_def
  sdk_write_def bcmCheckError_def ret_def throw_def boundMirror_def bindMirror_def
  mirrorCalls_def sdk_effect_def Let_def

text \<open>
  C3.  \<open>updateMirror\<close> on a direction issues \<open>STOP\<close> against the session bound so
  far, then records the new binding, then issues \<open>START\<close> against the new session.
  With \<open>calls\<close> the calls it appends to the log: when it returns normally they are
  the \<open>STOP\<close> of the old session (if there was one) followed by the \<open>START\<close> of the
  new one (if there is one), and the binding is the new one, so rebinding from \<open>A\<close>
  to \<open>B\<close> gives \<open>STOP A\<close>, \<open>START B\<close> and rebinding to no session gives
  \<open>STOP\<close> only and no binding; in every outcome a \<open>START\<close> is the last call, right
  after the \<open>STOP\<close> of the old session, the binding changes only after that
  \<open>STOP\<close> was issued, and at no moment is the port attached to two sessions in the
  direction (given that before the call it was attached to the bound session at most).
\<close>

theorem updateMirror_stop_before_start:
  fixes p d new
  defines "old \<equiv> boundMirror d p" and "p' \<equiv> snd (updateMirror new d p)"
  defines "calls \<equiv> newCalls p p'"
  shows "sdkLog p' = sdkLog p @ calls
       \<and> (fst (updateMirror new d p) = Inr () \<longrightarrow>
            calls = mirrorCalls STOP old d @ mirrorCalls START new d \<and> boundMirror d p' = new)
       \<and> (\<forall>n. PortMirrorAction START n d \<in> set calls \<longrightarrow>
            new = Some n \<and> calls = mirrorCalls STOP old d @ [PortMirrorAction START n d]
            \<and> boundMirror d p' = new)
       \<and> (boundMirror d p' \<noteq> old \<longrightarrow>
            take (length (mirrorCalls STOP old d)) calls = mirrorCalls STOP old d)
       \<and> (\<forall>attached \<in> set (attachedHistory (sdkRv p) d (set_option old) calls).
            card attached \<le> 1)"
  unfolding old_def p'_def calls_def newCalls_def
  by (cases d; cases "ingressMirror p"; cases "egressMirror p"; cases new)
     (auto simp add: mirror_defs mirror_step_def)

theorem updateMirror_stop_before_start_witness:
  "fst (updateMirror (Some ''A'') INGRESS examplePort) = Inr ()
 \<and> sdkLog (snd (updateMirror (Some ''A'') INGRESS examplePort))
     = [PortMirrorAction START ''A'' INGRESS]
 \<and> fst (updateMirror (Some ''B'') INGRESS (snd (updateMirror (Some ''A'') INGRESS examplePort)))
     = Inr ()
 \<and> newCalls (snd (updateMirror (Some ''A'') INGRESS examplePort))
      (snd (updateMirror (Some ''B'') INGRESS (snd (updateMirror (Some ''A'') INGRESS examplePort))))
     = [PortMirrorAction STOP ''A'' INGRESS, PortMirrorAction START ''B'' INGRESS]
 \<and> fst (updateMirror None INGRESS
      (snd (updateMirror (Some ''B'') INGRESS (snd (updateMirror (Some ''A'') INGRESS examplePort)))))
     = Inr ()
 \<and> newCalls
      (snd (updateMirror (Some ''B'') INGRESS (snd (updateMirror (Some ''A'') INGRESS examplePort))))
      (snd (updateMirror None INGRESS
        (snd (updateMirror (Some ''B'') INGRESS (snd (updateMirror (Some ''A'') INGRESS examplePort))))))
     = [PortMirrorAction STOP ''B'' INGRESS]
 \<and> ingressMirror (snd (updateMirror None INGRESS
        (snd (updateMirror (Some ''B'') INGRESS (snd (updateMirror (Some ''A'') INGRESS examplePort))))))
     = None"
proof -
  let ?p1 = "snd (updateMirror (Some ''A'') INGRESS examplePort)"
  let ?p2 = "snd (updateMirror (Some ''B'') INGRESS ?p1)"
  let ?p3 = "snd (updateMirror None INGRESS ?p2)"
  have ok1: "fst (updateMirror (Some ''A'') INGRESS examplePort) = Inr ()"
    and log1: "sdkLog ?p1 = [PortMirrorAction START ''A'' INGRESS]"
    and b1: "boundMirror INGRESS ?p1 = Some ''A''"
    by (simp_all add: mirror_defs examplePort_def)
  have ok2: "fst (updateMirror (Some ''B'') INGRESS ?p1) = Inr ()"
    by (simp add: mirror_defs examplePort_def)
  have ok3: "fst (updateMirror None INGRESS ?p2) = Inr ()"
    by (simp add: mirror_defs examplePort_def)
  note t2 = updateMirror_stop_before_start [of "Some ''B''" INGRESS ?p1]
  note t3 = updateMirror_stop_before_start [of None INGRESS ?p2]
  from t2 ok2 have r2: "newCalls ?p1 ?p2 =
        mirrorCalls STOP (boundMirror INGRESS ?p1) INGRESS @ mirrorCalls START (Some ''B'') INGRESS
      \<and> boundMirror INGRESS ?p2 = Some ''B''"
    by blast
  have c2: "newCalls ?p1 ?p2 = [PortMirrorAction STOP ''A'' INGRESS, PortMirrorAction START ''B'' INGRESS]"
    using r2 by (simp add: b1 mirrorCalls_def)
  have b2: "boundMirror INGRESS ?p2 = Some ''B''"
    using r2 by blast
  from t3 ok3 have r3: "newCalls ?p2 ?p3 =
        mirrorCalls STOP (boundMirror INGRESS ?p2) INGRESS @ mirrorCalls START None INGRESS
      \<and> boundMirror INGRESS ?p3 = None"
    by blast
  have c3: "newCalls ?p2 ?p3 = [PortMirrorAction STOP ''B'' INGRESS]"
    using r3 by (simp add: b2 mirrorCalls_def)
  have b3: "ingressMirror ?p3 = None"
    using r3 by (simp add: boundMirror_def)
  show ?thesis
    using ok1 log1 ok2 c2 ok3 c3 b3 by blast
qed

section \<open>Properties: enabling a port\<close>




text \<open>
  C5, as stated, fails: a port that is administratively up, in the configuration and
  in hardware, and already runs at the desired speed and interface mode, still gets
  the interface-mode write and the speed write from \<open>setSpeed\<close> when its link is
  down, because the gate is \<open>swPort->isPortUp()\<close> and not the admin state.
\<close>

theorem setSpeed_admin_up_counterexample:
  "swAdminState exampleSwPort = ENABLED
 \<and> hwEnabled exampleEnabledPort
 \<and> fst (getDesiredPortSpeed exampleSwPort exampleEnabledPort)
     = Inr (hwSpeed exampleEnabledPort)
 \<and> \<not> swIsPortUp exampleSwPort
 \<and> sdkLog (snd (setSpeed exampleSwPort exampleEnabledPort))
     = [InterfaceSet OPENNSL_PORT_IF_CAUI, SpeedSet HUNDREDG, LinkSpeedChanged HUNDREDG]"
  by (simp add: port_exec_defs exampleEnabledPort_def examplePort_def exampleSwPort_def)

text \<open>
  C5, amended.  When the port is up in the sense of \<open>swPort->isPortUp()\<close> and the
  speed the hardware reports equals the desired speed, \<open>setSpeed\<close> changes nothing:
  it issues neither the interface-mode write nor the speed write.  And when
  \<open>enable\<close> returns normally, a second \<open>enable\<close> right after it changes nothing,
  so that the two calls together issue at most one speed write and at most one
  interface-mode write.
\<close>

theorem setSpeed_gate_enable_twice:
  "(swIsPortUp swPort \<and> fst (getDesiredPortSpeed swPort p) = Inr (hwSpeed p) \<longrightarrow>
      snd (setSpeed swPort p) = p)
 \<and> (fst (enable swPort p) = Inr () \<longrightarrow>
      snd (enable swPort (snd (enable swPort p))) = snd (enable swPort p)
    \<and> (\<exists>calls. sdkLog (snd (enable swPort (snd (enable swPort p)))) = sdkLog p @ calls
          \<and> length (filter isSpeedSet calls) \<le> 1
          \<and> length (filter isInterfaceSet calls) \<le> 1))"
proof (intro conjI impI)
  assume "swIsPortUp swPort \<and> fst (getDesiredPortSpeed swPort p) = Inr (hwSpeed p)"
  then show "snd (setSpeed swPort p) = p"
    by (auto simp: setSpeed_def getDesiredPortSpeed_def getSpeed_def sdk_get_def bind_def ret_def
        split: if_splits)
next
  assume ok: "fst (enable swPort p) = Inr ()"
  have en: "hwEnabled (snd (enable swPort p))"
    using ok enable_already [of p swPort] enable_ok [of p swPort] by (cases "hwEnabled p") auto
  then show again: "snd (enable swPort (snd (enable swPort p))) = snd (enable swPort p)"
    by (rule enable_already)
  obtain c1 where c1: "sdkLog (snd (enable swPort p)) = sdkLog p @ c1"
      "length (filter isSpeedSet c1) \<le> Suc 0"
    using emits_le_enable_speed [of swPort] unfolding emits_le_def by blast
  obtain c2 where c2: "sdkLog (snd (enable swPort p)) = sdkLog p @ c2"
      "length (filter isInterfaceSet c2) \<le> Suc 0"
    using emits_le_enable_interface [of swPort] unfolding emits_le_def by blast
  have "c1 = c2" using c1(1) c2(1) by simp
  with c1 c2 again
  show "\<exists>calls. sdkLog (snd (enable swPort (snd (enable swPort p)))) = sdkLog p @ calls
          \<and> length (filter isSpeedSet calls) \<le> 1
          \<and> length (filter isInterfaceSet calls) \<le> 1"
    by (intro exI [of _ c1]) simp
qed

theorem setSpeed_gate_enable_twice_witness:
  "swIsPortUp (exampleSwPort\<lparr>swIsPortUp := True\<rparr>)
 \<and> fst (getDesiredPortSpeed (exampleSwPort\<lparr>swIsPortUp := True\<rparr>)
          (examplePort\<lparr>hwSpeed := HUNDREDG\<rparr>))
     = Inr (hwSpeed (examplePort\<lparr>hwSpeed := HUNDREDG\<rparr>))
 \<and> sdkLog (snd (setSpeed (exampleSwPort\<lparr>swIsPortUp := True\<rparr>)
                  (examplePort\<lparr>hwSpeed := HUNDREDG\<rparr>))) = []
 \<and> fst (enable exampleSwPort examplePort) = Inr ()
 \<and> filter isSpeedSet (sdkLog (snd (enable exampleSwPort (snd (enable exampleSwPort examplePort)))))
     = [SpeedSet HUNDREDG]
 \<and> filter isInterfaceSet
      (sdkLog (snd (enable exampleSwPort (snd (enable exampleSwPort examplePort)))))
     = [InterfaceSet OPENNSL_PORT_IF_CAUI]"
proof -
  let ?sw = "exampleSwPort\<lparr>swIsPortUp := True\<rparr>"
  let ?p = "examplePort\<lparr>hwSpeed := HUNDREDG\<rparr>"
  have up: "swIsPortUp ?sw" by simp
  have sp: "fst (getDesiredPortSpeed ?sw ?p) = Inr (hwSpeed ?p)"
    by (simp add: getDesiredPortSpeed_def exampleSwPort_def ret_def)
  note gate = setSpeed_gate_enable_twice [of ?sw ?p, THEN conjunct1, THEN mp, OF conjI, OF up sp]
  note twice = setSpeed_gate_enable_twice
    [of exampleSwPort examplePort, THEN conjunct2, THEN mp, OF examplePort_enable_ok]
  have g: "sdkLog (snd (setSpeed ?sw ?p)) = []"
    using gate by (simp add: examplePort_def)
  have t: "snd (enable exampleSwPort (snd (enable exampleSwPort examplePort)))
             = snd (enable exampleSwPort examplePort)"
    using twice by blast
  show ?thesis
    using up sp g examplePort_enable_ok
    by (simp add: t examplePort_enable_log isSpeedSet_def isInterfaceSet_def)
qed

section \<open>Properties: non-pause discards\<close>

lemma computeNonPauseDiscards_inputs [simp]:
  "inDiscards (computeNonPauseDiscards k l prev cur) = inDiscards cur"
  "inPause (computeNonPauseDiscards k l prev cur) = inPause cur"
  by (simp_all add: computeNonPauseDiscards_def Let_def)

lemma collectStats_inNonPauseDiscards [simp]:
  "inNonPauseDiscards (collectStats p cur) = inNonPauseDiscards cur"
  by (simp add: collectStats_def)













section \<open>Properties: the module presence probe\<close>

lemma raises_only_ret: "raises_only E (ret x)"
  by (simp add: raises_only_def ret_def)

lemma raises_only_throw: "e \<in> E \<Longrightarrow> raises_only E (throw e)"
  by (simp add: raises_only_def throw_def)

lemma raises_only_bind:
  assumes "raises_only E m" and "\<And>x. raises_only E (f x)"
  shows "raises_only E (bind m f)"
  unfolding raises_only_def
proof (intro allI impI)
  fix s e assume e: "fst (bind m f s) = Inl e"
  show "e \<in> E"
  proof (cases "m s")
    case (Pair r s')
    show ?thesis
    proof (cases r)
      case (Inl e')
      with Pair e assms(1) show ?thesis
        by (auto simp: bind_def raises_only_def dest!: spec [of _ s])
    next
      case (Inr x)
      with Pair e have "fst (f x s') = Inl e" by (simp add: bind_def)
      with assms(2) show ?thesis unfolding raises_only_def by blast
    qed
  qed
qed

lemma raises_only_next_do:
  "raises_only E m \<Longrightarrow> raises_only E k \<Longrightarrow> raises_only E (next_do m k)"
  unfolding next_do_def by (rule raises_only_bind)

lemma raises_only_if_state:
  "raises_only E m \<Longrightarrow> raises_only E k \<Longrightarrow> raises_only E (\<lambda>s. if c s then m s else k s)"
  by (simp add: raises_only_def)

lemma raises_only_CHECK: "InvariantViolation \<in> E \<Longrightarrow> raises_only E (CHECK c)"
  by (simp add: CHECK_def raises_only_ret raises_only_throw)

lemma raises_only_CHECK_state:
  "InvariantViolation \<in> E \<Longrightarrow> raises_only E (\<lambda>s. CHECK (c s) s)"
  by (simp add: CHECK_def raises_only_def ret_def throw_def)

lemma raises_only_i2c: "I2cError \<in> E \<Longrightarrow> raises_only E (i2c f)"
  by (auto simp: raises_only_def i2c_def split: prod.splits option.splits)

lemma raises_only_on_dev: "I2cError \<in> E \<Longrightarrow> raises_only E (on_dev f)"
  unfolding on_dev_def by (rule raises_only_i2c)

lemma probe_errors_mem: "I2cError \<in> probe_errors" "InvariantViolation \<in> probe_errors"
  by (simp_all add: probe_errors_def)

lemma raises_only_read_bus: "raises_only probe_errors (read_bus be address offset len)"
proof -
  have w: "\<And>a x. raises_only probe_errors (on_dev (devWriteByte be a x))"
    and r: "\<And>a n. raises_only probe_errors (on_dev (devRead be a n))"
    by (simp_all add: raises_only_on_dev probe_errors_mem)
  have long: "raises_only probe_errors
       (bind (on_dev (devRead be a 128)) (\<lambda>lo.
          next_do (on_dev (devWriteByte be a x))
            (bind (on_dev (devRead be a n)) (\<lambda>hi. ret (lo @ hi)))))" for a x n
    by (intro raises_only_bind raises_only_next_do w r raises_only_ret)
  have rest: "raises_only probe_errors
       (if len > 128
           then
             bind (on_dev (devRead be a 128)) (\<lambda>lo.
             next_do (on_dev (devWriteByte be a x))
               (bind (on_dev (devRead be a n)) (\<lambda>hi.
                ret (lo @ hi))))
           else on_dev (devRead be a k))" for a x n k
    using long r by simp
  show ?thesis
    unfolding read_bus_def Let_def
    by (intro raises_only_next_do raises_only_CHECK probe_errors_mem w rest)
qed

lemma raises_only_selectQsfp: "raises_only probe_errors (selectQsfp be port)"
  unfolding selectQsfp_def
  by (intro raises_only_next_do raises_only_CHECK raises_only_if_state raises_only_i2c
      raises_only_ret probe_errors_mem)

lemma raises_only_unselectQsfp: "raises_only probe_errors (unselectQsfp be)"
  unfolding unselectQsfp_def
  by (intro raises_only_if_state raises_only_i2c raises_only_ret probe_errors_mem)

lemma raises_only_moduleRead:
  "raises_only probe_errors (moduleRead be module address offset len)"
  unfolding moduleRead_def
  by (intro raises_only_next_do raises_only_bind raises_only_selectQsfp raises_only_read_bus
      raises_only_unselectQsfp raises_only_CHECK_state raises_only_ret probe_errors_mem)

lemma moduleRead_outcomes:
  "(\<exists>buf. fst (moduleRead be module address offset len b) = Inr buf)
   \<or> fst (moduleRead be module address offset len b) = Inl I2cError
   \<or> fst (moduleRead be module address offset len b) = Inl InvariantViolation"
  using raises_only_moduleRead [of be module address offset len]
  unfolding raises_only_def probe_errors_def
  by (cases "fst (moduleRead be module address offset len b)") auto

lemma isPresent_cases:
  "(fst (moduleRead be module (ADDR_QSFP be) 0 1 b) = Inl I2cError \<longrightarrow>
      isPresent be module b = (Inr False, snd (moduleRead be module (ADDR_QSFP be) 0 1 b)))
 \<and> ((\<exists>buf. fst (moduleRead be module (ADDR_QSFP be) 0 1 b) = Inr buf) \<longrightarrow>
      isPresent be module b = (Inr True, snd (moduleRead be module (ADDR_QSFP be) 0 1 b)))
 \<and> (\<forall>e. fst (isPresent be module b) = Inl e \<longrightarrow>
      e = InvariantViolation
      \<and> fst (moduleRead be module (ADDR_QSFP be) 0 1 b) = Inl InvariantViolation)"
  using moduleRead_outcomes [of be module "ADDR_QSFP be" 0 1 b]
  by (cases "moduleRead be module (ADDR_QSFP be) 0 1 b")
     (auto simp: isPresent_def split: sum.splits error.splits)

lemma scanPresence_Cons:
  "(fst (moduleRead be (key + 1) (ADDR_QSFP be) 0 1 b) = Inl I2cError \<longrightarrow>
      scanPresence be ((key, presence) # presences) b =
        bind (scanPresence be presences) (\<lambda>rest. ret ((key, ABSENT) # rest))
          (snd (moduleRead be (key + 1) (ADDR_QSFP be) 0 1 b)))
 \<and> ((\<exists>buf. fst (moduleRead be (key + 1) (ADDR_QSFP be) 0 1 b) = Inr buf) \<longrightarrow>
      scanPresence be ((key, presence) # presences) b =
        bind (scanPresence be presences) (\<lambda>rest. ret ((key, PRESENT) # rest))
          (snd (moduleRead be (key + 1) (ADDR_QSFP be) 0 1 b)))"
  by (cases "moduleRead be (key + 1) (ADDR_QSFP be) 0 1 b")
     (auto split: sum.splits error.splits)

lemma scanPresence_result:
  "(\<forall>e. fst (scanPresence be presences b) = Inl e \<longrightarrow> e = InvariantViolation)
 \<and> (\<forall>res. fst (scanPresence be presences b) = Inr res \<longrightarrow>
       map fst res = map fst presences \<and> length res = length presences)"
proof (induction presences arbitrary: b)
  case Nil
  then show ?case by (simp add: ret_def)
next
  case (Cons kp presences)
  obtain key presence where kp: "kp = (key, presence)" by (cases kp)
  let ?r = "moduleRead be (key + 1) (ADDR_QSFP be) 0 1 b"
  from moduleRead_outcomes [of be "key + 1" "ADDR_QSFP be" 0 1 b]
  consider (ok) buf where "fst ?r = Inr buf" | (i2c) "fst ?r = Inl I2cError"
    | (abort) "fst ?r = Inl InvariantViolation"
    by blast
  then show ?case
  proof cases
    case ok
    then have eq: "scanPresence be (kp # presences) b =
        bind (scanPresence be presences) (\<lambda>rest. ret ((key, PRESENT) # rest)) (snd ?r)"
      using scanPresence_Cons [of be key b presence presences] kp by blast
    show ?thesis
      using Cons.IH [of "snd ?r"] kp unfolding eq
      by (cases "scanPresence be presences (snd ?r)"; cases "fst (scanPresence be presences (snd ?r))")
         (auto simp: bind_def ret_def)
  next
    case i2c
    then have eq: "scanPresence be (kp # presences) b =
        bind (scanPresence be presences) (\<lambda>rest. ret ((key, ABSENT) # rest)) (snd ?r)"
      using scanPresence_Cons [of be key b presence presences] kp by blast
    show ?thesis
      using Cons.IH [of "snd ?r"] kp unfolding eq
      by (cases "scanPresence be presences (snd ?r)"; cases "fst (scanPresence be presences (snd ?r))")
         (auto simp: bind_def ret_def)
  next
    case abort
    then show ?thesis
      using kp by (cases ?r) (auto split: sum.splits error.splits)
  qed
qed

lemmas bus_exec_defs = isPresent_def moduleRead_def selectQsfp_def unselectQsfp_def read_bus_def
  CHECK_def i2c_def on_dev_def next_do_def bind_def ret_def throw_def Let_def
  exampleBackend_def exampleBus_def

text \<open>
  C8.  \<open>isPresent\<close> answers \<open>false\<close> when the module read throws \<open>I2cError\<close> and
  \<open>true\<close> when the read returns, and \<open>scanPresence\<close> records \<open>ABSENT\<close> and
  \<open>PRESENT\<close> for the entry in the same two cases and goes on with the rest of the map;
  neither lets an exception out.  The only outcome other than a result is the end of
  the process at a failed \<open>CHECK\<close> of the read path (module number 0, or no port
  selected), which is not a communication failure; a scan that returns has kept the
  keys of the map.
\<close>

theorem presence_probe_downgrades_i2c_errors:
  "(fst (moduleRead be module (ADDR_QSFP be) 0 1 b) = Inl I2cError \<longrightarrow>
      fst (isPresent be module b) = Inr False)
 \<and> ((\<exists>buf. fst (moduleRead be module (ADDR_QSFP be) 0 1 b) = Inr buf) \<longrightarrow>
      fst (isPresent be module b) = Inr True)
 \<and> (\<forall>e. fst (isPresent be module b) = Inl e \<longrightarrow>
      e = InvariantViolation
      \<and> fst (moduleRead be module (ADDR_QSFP be) 0 1 b) = Inl InvariantViolation)
 \<and> (fst (moduleRead be (key + 1) (ADDR_QSFP be) 0 1 b) = Inl I2cError \<longrightarrow>
      scanPresence be ((key, presence) # presences) b =
        bind (scanPresence be presences) (\<lambda>rest. ret ((key, ABSENT) # rest))
          (snd (moduleRead be (key + 1) (ADDR_QSFP be) 0 1 b)))
 \<and> ((\<exists>buf. fst (moduleRead be (key + 1) (ADDR_QSFP be) 0 1 b) = Inr buf) \<longrightarrow>
      scanPresence be ((key, presence) # presences) b =
        bind (scanPresence be presences) (\<lambda>rest. ret ((key, PRESENT) # rest))
          (snd (moduleRead be (key + 1) (ADDR_QSFP be) 0 1 b)))
 \<and> (\<forall>e. fst (scanPresence be presences b) = Inl e \<longrightarrow> e = InvariantViolation)
 \<and> (\<forall>res. fst (scanPresence be presences b) = Inr res \<longrightarrow>
       map fst res = map fst presences)"
proof -
  note ip = isPresent_cases [of be module b]
  note sc = scanPresence_Cons [of be key b presence presences]
  note sr = scanPresence_result [of be presences b]
  have c1: "fst (moduleRead be module (ADDR_QSFP be) 0 1 b) = Inl I2cError \<longrightarrow>
      fst (isPresent be module b) = Inr False"
    using ip [THEN conjunct1] by (metis fst_conv)
  have c2: "(\<exists>buf. fst (moduleRead be module (ADDR_QSFP be) 0 1 b) = Inr buf) \<longrightarrow>
      fst (isPresent be module b) = Inr True"
    using ip [THEN conjunct2, THEN conjunct1] by (metis fst_conv)
  have c3: "\<forall>e. fst (isPresent be module b) = Inl e \<longrightarrow>
      e = InvariantViolation
      \<and> fst (moduleRead be module (ADDR_QSFP be) 0 1 b) = Inl InvariantViolation"
    by (rule ip [THEN conjunct2, THEN conjunct2])
  have c6: "\<forall>e. fst (scanPresence be presences b) = Inl e \<longrightarrow> e = InvariantViolation"
    by (rule sr [THEN conjunct1])
  have c7: "\<forall>res. fst (scanPresence be presences b) = Inr res \<longrightarrow>
       map fst res = map fst presences"
    using sr [THEN conjunct2] by blast
  show ?thesis
    by (intro conjI c1 c2 c3 c6 c7 sc [THEN conjunct1] sc [THEN conjunct2])
qed

theorem presence_probe_downgrades_i2c_errors_witness:
  "fst (moduleRead exampleBackend 2 (ADDR_QSFP exampleBackend) 0 1 exampleBus) = Inl I2cError
 \<and> fst (isPresent exampleBackend 2 exampleBus) = Inr False
 \<and> fst (moduleRead exampleBackend 1 (ADDR_QSFP exampleBackend) 0 1 exampleBus) = Inr [0]
 \<and> fst (isPresent exampleBackend 1 exampleBus) = Inr True
 \<and> fst (scanPresence exampleBackend [(0, ABSENT), (1, PRESENT), (2, ABSENT)] exampleBus)
     = Inr [(0, PRESENT), (1, ABSENT), (2, PRESENT)]
 \<and> map fst [(0 :: 32 word, PRESENT), (1, ABSENT), (2, PRESENT)]
     = map fst [(0 :: 32 word, ABSENT), (1, PRESENT), (2, ABSENT)]"
proof -
  have r2: "fst (moduleRead exampleBackend 2 (ADDR_QSFP exampleBackend) 0 1 exampleBus)
              = Inl I2cError"
    and r1: "fst (moduleRead exampleBackend 1 (ADDR_QSFP exampleBackend) 0 1 exampleBus) = Inr [0]"
    and sc: "fst (scanPresence exampleBackend [(0, ABSENT), (1, PRESENT), (2, ABSENT)] exampleBus)
              = Inr [(0, PRESENT), (1, ABSENT), (2, PRESENT)]"
    by (simp_all add: bus_exec_defs)
  note t2 = presence_probe_downgrades_i2c_errors
    [where be = exampleBackend and module = 2 and b = exampleBus and key = 1
       and presence = PRESENT and presences = "[(0, ABSENT), (1, PRESENT), (2, ABSENT)]"]
  note t1 = presence_probe_downgrades_i2c_errors
    [where be = exampleBackend and module = 1 and b = exampleBus and key = 0
       and presence = ABSENT and presences = "[(0, ABSENT), (1, PRESENT), (2, ABSENT)]"]
  have a: "fst (isPresent exampleBackend 2 exampleBus) = Inr False"
    by (rule t2 [THEN conjunct1, THEN mp, OF r2])
  have "\<exists>buf. fst (moduleRead exampleBackend 1 (ADDR_QSFP exampleBackend) 0 1 exampleBus) = Inr buf"
    using r1 by (rule exI)
  then have p: "fst (isPresent exampleBackend 1 exampleBus) = Inr True"
    by (rule t1 [THEN conjunct2, THEN conjunct1, THEN mp])
  have k: "map fst [(0 :: 32 word, PRESENT), (1, ABSENT), (2, PRESENT)]
             = map fst [(0 :: 32 word, ABSENT), (1, PRESENT), (2, ABSENT)]"
    by (rule t1 [THEN conjunct2, THEN conjunct2, THEN conjunct2, THEN conjunct2,
          THEN conjunct2, THEN conjunct2, THEN spec, THEN mp, OF sc])
  show ?thesis
    by (intro conjI r2 a r1 p sc k)
qed

end
